theory Spec2Isabelle
  imports Main
begin

section \<open>Data model\<close>

text \<open>
  The orchestration loop of \<^verbatim>\<open>src/client/chatgpt_mcp_integration.py\<close>: class
  \<^verbatim>\<open>ChatGPTMCPIntegration\<close>. Exceptions are values. \<open>py_exception\<close> stands for
  the instances of Python's \<^verbatim>\<open>Exception\<close>, the failures an
  \<^verbatim>\<open>except Exception\<close> clause catches; \<open>TypeError\<close> is kept apart because
  the tool invoker has a clause of its own for it, \<open>JSONDecodeError\<close> because
  \<^verbatim>\<open>json.loads\<close> raises it. Interpreter signals that derive from
  \<^verbatim>\<open>BaseException\<close> only (task cancellation, keyboard interrupt) are not
  failures of a call and are outside the model.
\<close>

datatype py_exception =
    TypeError string
  | JSONDecodeError string
  | OtherException string

text \<open>\<^verbatim>\<open>str(e)\<close>: the message of an exception.\<close>

fun exc_str :: "py_exception \<Rightarrow> string" where
  "exc_str (TypeError m) = m"
| "exc_str (JSONDecodeError m) = m"
| "exc_str (OtherException m) = m"

text \<open>
  What \<^verbatim>\<open>json.loads\<close> returns: a float is kept as its literal, since nothing
  here computes with it.
\<close>

datatype json =
    JNull
  | JBool bool
  | JInt int
  | JFloat string
  | JStr string
  | JList "json list"
  | JDict "(string \<times> json) list"

datatype turn_role = System | User | Assistant | Tool

text \<open>
  A tool-call request of the model: \<^verbatim>\<open>tc.id\<close>, \<^verbatim>\<open>tc.type\<close>,
  \<^verbatim>\<open>tc.function.name\<close>, \<^verbatim>\<open>tc.function.arguments\<close> (the arguments are
  a string, JSON-encoded by the model).
\<close>

record tool_call =
  tc_id :: string
  tc_type :: string
  fn_name :: string
  fn_arguments :: string

text \<open>
  A turn is a dictionary of the conversation history. The keys \<^verbatim>\<open>role\<close> and
  \<^verbatim>\<open>content\<close> are always there (the content of an assistant turn may be
  \<^verbatim>\<open>None\<close>); \<^verbatim>\<open>tool_calls\<close> and \<^verbatim>\<open>tool_call_id\<close> are keys
  that a dictionary has or has not: \<open>None\<close> is the absent key.
\<close>

record turn =
  role :: turn_role
  content :: "string option"
  tool_calls :: "tool_call list option"
  tool_call_id :: "string option"

text \<open>
  \<^verbatim>\<open>response.choices[0].message\<close>: its content (a string or \<^verbatim>\<open>None\<close>) and
  its tool calls (a list or \<^verbatim>\<open>None\<close>).
\<close>

record assistant_message =
  msg_content :: "string option"
  msg_tool_calls :: "tool_call list option"

text \<open>
  The two ways \<^verbatim>\<open>_execute_tool_call\<close> calls the provider's
  \<^verbatim>\<open>call_tool\<close>: \<^verbatim>\<open>call_tool(tool_name, arguments=arguments)\<close> and
  \<^verbatim>\<open>call_tool(tool_name, **arguments)\<close>.
\<close>

datatype call_args =
    Arguments json
  | Unpacked "(string \<times> json) list"

text \<open>
  The collaborators of the loop, taken as parameters. \<open>'w\<close> is the state of the
  world outside the session (the model provider, the tool provider): every remote
  call reads it and returns the next one, so that two calls with equal arguments may
  answer differently.
  \<^item> \<open>completions_create\<close>: \<^verbatim>\<open>client.chat.completions.create(...)\<close> on the
    history, then \<^verbatim>\<open>response.choices[0].message\<close>;
  \<^item> \<open>completions_create_stream\<close>: the same call with \<^verbatim>\<open>stream=True\<close>; the
    stream is the list of its chunks, each one the
    \<^verbatim>\<open>chunk.choices[0].delta.content\<close> read from it (\<open>Inr\<close>) or the exception
    raised on reaching it (\<open>Inl\<close>);
  \<^item> \<open>call_tool\<close>: \<^verbatim>\<open>str(await mcp_client.client.call_tool(...))\<close>;
  \<^item> \<open>unpack_error\<close>: the message of the \<^verbatim>\<open>TypeError\<close> that Python raises
    when \<^verbatim>\<open>**arguments\<close> is applied to a value that is not a mapping (the
    message names the callee and the type of the value);
  \<^item> \<open>json_loads\<close>: \<^verbatim>\<open>json.loads\<close>.
\<close>

record 'w env =
  completions_create :: "'w \<Rightarrow> turn list \<Rightarrow> (py_exception + assistant_message) \<times> 'w"
  completions_create_stream ::
    "'w \<Rightarrow> turn list \<Rightarrow> (py_exception + (py_exception + string option) list) \<times> 'w"
  call_tool :: "'w \<Rightarrow> string \<Rightarrow> call_args \<Rightarrow> (py_exception + string) \<times> 'w"
  unpack_error :: "json \<Rightarrow> string"
  json_loads :: "string \<Rightarrow> py_exception + json"

section \<open>Tool invoker\<close>

text \<open>
  \<^verbatim>\<open>call_tool(tool_name, **arguments)\<close>: unpacking anything but a mapping raises
  \<^verbatim>\<open>TypeError\<close> before the provider is called.
\<close>

definition call_tool_unpacked ::
  "'w env \<Rightarrow> 'w \<Rightarrow> string \<Rightarrow> json \<Rightarrow> (py_exception + string) \<times> 'w" where
  "call_tool_unpacked e w tool_name arguments =
     (case arguments of
        JDict kwargs \<Rightarrow> call_tool e w tool_name (Unpacked kwargs)
      | _ \<Rightarrow> (Inl (TypeError (unpack_error e arguments)), w))"

text \<open>The f-string \<^verbatim>\<open>f"Error calling tool {tool_name}: {str(e)}"\<close>.\<close>

definition error_calling_tool :: "string \<Rightarrow> py_exception \<Rightarrow> string" where
  "error_calling_tool tool_name ex =
     ''Error calling tool '' @ tool_name @ '': '' @ exc_str ex"

text \<open>
  \<^verbatim>\<open>_execute_tool_call\<close>: the outer \<^verbatim>\<open>try\<close> with its clauses
  \<^verbatim>\<open>except TypeError\<close> (which retries with the arguments unpacked, inside a
  \<^verbatim>\<open>try\<close> of its own) and \<^verbatim>\<open>except Exception\<close>.
\<close>

definition execute_tool_call ::
  "'w env \<Rightarrow> 'w \<Rightarrow> string \<Rightarrow> json \<Rightarrow> (py_exception + string) \<times> 'w" where
  "execute_tool_call e w tool_name arguments =
     (case call_tool e w tool_name (Arguments arguments) of
        (Inr result, w1) \<Rightarrow> (Inr result, w1)
      | (Inl (TypeError m), w1) \<Rightarrow>
          (case call_tool_unpacked e w1 tool_name arguments of
             (Inr result, w2) \<Rightarrow> (Inr result, w2)
           | (Inl ex, w2) \<Rightarrow> (Inr (error_calling_tool tool_name ex), w2))
      | (Inl ex, w1) \<Rightarrow> (Inr (error_calling_tool tool_name ex), w1))"

section \<open>Orchestration loop\<close>

text \<open>
  Lines 193 to 204 of \<^verbatim>\<open>chat\<close>, the same in \<^verbatim>\<open>chat_streaming\<close>
  (lines 290 to 301): the system turn when a prompt is given (a non-empty string) and
  the history is empty, then the user turn.
\<close>

definition append_prompts :: "turn list \<Rightarrow> string \<Rightarrow> string option \<Rightarrow> turn list" where
  "append_prompts hist user_message system_prompt =
     (let hist1 =
        (case system_prompt of
           Some p \<Rightarrow>
             (if p \<noteq> [] \<and> hist = []
              then hist @ [\<lparr>role = System, content = Some p,
                             tool_calls = None, tool_call_id = None\<rparr>]
              else hist)
         | None \<Rightarrow> hist)
      in hist1 @ [\<lparr>role = User, content = Some user_message,
                    tool_calls = None, tool_call_id = None\<rparr>])"

text \<open>\<^verbatim>\<open>if assistant_message.tool_calls\<close>: a list that is there and not empty.\<close>

definition has_tool_calls :: "assistant_message \<Rightarrow> bool" where
  "has_tool_calls m = (case msg_tool_calls m of None \<Rightarrow> False | Some tcs \<Rightarrow> tcs \<noteq> [])"

text \<open>The dictionary built for one tool call at lines 229 to 236.\<close>

definition tool_call_dict :: "tool_call \<Rightarrow> tool_call" where
  "tool_call_dict tc =
     \<lparr>tc_id = tc_id tc, tc_type = tc_type tc,
      fn_name = fn_name tc, fn_arguments = fn_arguments tc\<rparr>"

text \<open>
  \<^verbatim>\<open>message_dict\<close>, lines 222 to 238: the key \<^verbatim>\<open>tool_calls\<close> is set only
  when the message has tool calls.
\<close>

definition message_dict :: "assistant_message \<Rightarrow> turn" where
  "message_dict m =
     \<lparr>role = Assistant, content = msg_content m,
      tool_calls =
        (if has_tool_calls m
         then Some (map tool_call_dict (case msg_tool_calls m of Some tcs \<Rightarrow> tcs | None \<Rightarrow> []))
         else None),
      tool_call_id = None\<rparr>"

text \<open>The tool turn appended at lines 267 to 271.\<close>

definition tool_turn :: "tool_call \<Rightarrow> string \<Rightarrow> turn" where
  "tool_turn tc tool_result =
     \<lparr>role = Tool, content = Some tool_result,
      tool_calls = None, tool_call_id = Some (tc_id tc)\<rparr>"

text \<open>
  The \<^verbatim>\<open>for tool_call in assistant_message.tool_calls\<close> loop, lines 248 to 271.
  \<^verbatim>\<open>json.loads\<close> stands before the \<^verbatim>\<open>try\<close>: its exception leaves the
  loop and \<^verbatim>\<open>chat\<close>, with the history as it is then. An exception of
  \<^verbatim>\<open>_execute_tool_call\<close> is caught and becomes the text of the tool turn.
\<close>

fun run_tool_calls ::
  "'w env \<Rightarrow> 'w \<Rightarrow> turn list \<Rightarrow> tool_call list \<Rightarrow> (py_exception + unit) \<times> turn list \<times> 'w" where
  "run_tool_calls e w hist [] = (Inr (), hist, w)"
| "run_tool_calls e w hist (tc # tcs) =
     (case json_loads e (fn_arguments tc) of
        Inl ex \<Rightarrow> (Inl ex, hist, w)
      | Inr function_args \<Rightarrow>
          (case execute_tool_call e w (fn_name tc) function_args of
             (r, w1) \<Rightarrow>
               (let tool_result =
                      (case r of
                         Inr s \<Rightarrow> s
                       | Inl ex \<Rightarrow> ''Error executing tool: '' @ exc_str ex)
                in run_tool_calls e w1 (hist @ [tool_turn tc tool_result]) tcs)))"

definition budget_exhausted :: string where
  "budget_exhausted = ''Maximum iterations reached. Please try again with a simpler request.''"

text \<open>
  The \<^verbatim>\<open>while iteration < max_iterations\<close> loop, lines 206 to 273. The result
  is what \<^verbatim>\<open>chat\<close> returns (\<open>Inr\<close>) or raises (\<open>Inl\<close>), with the history
  and the world left behind. In the source \<^verbatim>\<open>iteration += 1\<close> opens the body;
  here the next iteration is entered with \<open>iteration + 1\<close>, the same count.
\<close>

function chat_loop ::
  "'w env \<Rightarrow> int \<Rightarrow> int \<Rightarrow> 'w \<Rightarrow> turn list \<Rightarrow> (py_exception + string) \<times> turn list \<times> 'w" where
  "chat_loop e iteration max_iterations w hist =
     (if iteration < max_iterations then
        (case completions_create e w hist of
           (Inl ex, w1) \<Rightarrow> (Inl ex, hist, w1)
         | (Inr assistant_message, w1) \<Rightarrow>
             (let hist1 = hist @ [message_dict assistant_message] in
              if \<not> has_tool_calls assistant_message
              then (Inr (case msg_content assistant_message of
                           None \<Rightarrow> ''''
                         | Some c \<Rightarrow> c), hist1, w1)
              else
                (case run_tool_calls e w1 hist1
                        (case msg_tool_calls assistant_message of
                           Some tcs \<Rightarrow> tcs | None \<Rightarrow> []) of
                   (Inl ex, hist2, w2) \<Rightarrow> (Inl ex, hist2, w2)
                 | (Inr u, hist2, w2) \<Rightarrow>
                     chat_loop e (iteration + 1) max_iterations w2 hist2)))
      else (Inr budget_exhausted, hist, w))"
  by pat_completeness auto
termination
  by (relation "measure (\<lambda>(e, iteration, max_iterations, w, hist).
        nat (max_iterations - iteration))") auto

declare chat_loop.simps [simp del]

definition chat ::
  "'w env \<Rightarrow> 'w \<Rightarrow> turn list \<Rightarrow> string \<Rightarrow> string option \<Rightarrow> int
     \<Rightarrow> (py_exception + string) \<times> turn list \<times> 'w" where
  "chat e w hist user_message system_prompt max_iterations =
     chat_loop e 0 max_iterations w (append_prompts hist user_message system_prompt)"

section \<open>Streaming variant\<close>

text \<open>
  \<^verbatim>\<open>chat_streaming\<close> is an asynchronous generator. Calling it runs none of its
  body (\<open>Created\<close>, with the arguments it was called with); every
  \<^verbatim>\<open>__anext__\<close> runs the body to the next \<^verbatim>\<open>yield\<close>
  (\<open>Suspended\<close>, with \<^verbatim>\<open>collected_messages\<close> and the chunks not read yet)
  or to its end (\<open>Closed\<close>).
\<close>

datatype stream_gen =
    Created string "string option"
  | Suspended "string list" "(py_exception + string option) list"
  | Closed

datatype gen_result = Yield string | StopAsyncIteration | Raise py_exception

text \<open>
  The \<^verbatim>\<open>async for chunk in stream\<close> loop from where it stands, lines 313 to
  324: a chunk whose content is \<^verbatim>\<open>None\<close> or empty is skipped, any other is
  collected and yielded; when the stream ends the joined fragments are appended as
  the assistant turn.
\<close>

fun resume ::
  "string list \<Rightarrow> (py_exception + string option) list \<Rightarrow> turn list
     \<Rightarrow> gen_result \<times> turn list \<times> stream_gen" where
  "resume collected_messages [] hist =
     (StopAsyncIteration,
      hist @ [\<lparr>role = Assistant, content = Some (concat collected_messages),
                tool_calls = None, tool_call_id = None\<rparr>],
      Closed)"
| "resume collected_messages (Inl ex # rest) hist = (Raise ex, hist, Closed)"
| "resume collected_messages (Inr None # rest) hist = resume collected_messages rest hist"
| "resume collected_messages (Inr (Some c) # rest) hist =
     (if c \<noteq> []
      then (Yield c, hist, Suspended (collected_messages @ [c]) rest)
      else resume collected_messages rest hist)"

definition chat_streaming :: "string \<Rightarrow> string option \<Rightarrow> stream_gen" where
  "chat_streaming user_message system_prompt = Created user_message system_prompt"

text \<open>\<^verbatim>\<open>__anext__\<close> on the generator, with the history of the session.\<close>

fun anext ::
  "'w env \<Rightarrow> 'w \<Rightarrow> turn list \<Rightarrow> stream_gen \<Rightarrow> gen_result \<times> turn list \<times> stream_gen \<times> 'w" where
  "anext e w hist (Created user_message system_prompt) =
     (let hist1 = append_prompts hist user_message system_prompt in
      case completions_create_stream e w hist1 of
        (Inl ex, w1) \<Rightarrow> (Raise ex, hist1, Closed, w1)
      | (Inr stream, w1) \<Rightarrow>
          (case resume [] stream hist1 of (r, hist2, g) \<Rightarrow> (r, hist2, g, w1)))"
| "anext e w hist (Suspended collected_messages rest) =
     (case resume collected_messages rest hist of (r, hist2, g) \<Rightarrow> (r, hist2, g, w))"
| "anext e w hist Closed = (StopAsyncIteration, hist, Closed, w)"

text \<open>
  Abandoning the generator (\<^verbatim>\<open>aclose\<close>, or its finalisation once dropped):
  \<^verbatim>\<open>GeneratorExit\<close> is raised at the \<^verbatim>\<open>yield\<close>, the body has no
  handler, nothing more of it runs.
\<close>

definition aclose :: "stream_gen \<Rightarrow> stream_gen" where
  "aclose g = Closed"

text \<open>
  A caller that takes at most \<open>k\<close> fragments and then abandons the generator; it
  stops before that when the generator ends or raises. It returns the fragments it
  received.
\<close>

fun consume ::
  "'w env \<Rightarrow> nat \<Rightarrow> 'w \<Rightarrow> turn list \<Rightarrow> stream_gen \<Rightarrow> string list \<times> turn list \<times> stream_gen \<times> 'w" where
  "consume e 0 w hist g = ([], hist, aclose g, w)"
| "consume e (Suc k) w hist g =
     (case anext e w hist g of
        (Yield c, hist1, g1, w1) \<Rightarrow>
          (case consume e k w1 hist1 g1 of (cs, hist2, g2, w2) \<Rightarrow> (c # cs, hist2, g2, w2))
      | (r, hist1, g1, w1) \<Rightarrow> ([], hist1, g1, w1))"

text \<open>
  The fragments a stream makes the generator yield, up to its end or to the first
  chunk that fails; and whether the stream ends without failing.
\<close>

fun yielded :: "(py_exception + string option) list \<Rightarrow> string list" where
  "yielded [] = []"
| "yielded (Inl ex # rest) = []"
| "yielded (Inr None # rest) = yielded rest"
| "yielded (Inr (Some c) # rest) = (if c \<noteq> [] then c # yielded rest else yielded rest)"

fun ends_normally :: "(py_exception + string option) list \<Rightarrow> bool" where
  "ends_normally [] = True"
| "ends_normally (Inl ex # rest) = False"
| "ends_normally (Inr c # rest) = ends_normally rest"

section \<open>Sequences of calls\<close>

record chat_request =
  req_message :: string
  req_system_prompt :: "string option"
  req_max_iterations :: int

text \<open>A caller that sends the requests one after the other to \<^verbatim>\<open>chat\<close>.\<close>

fun chat_calls :: "'w env \<Rightarrow> 'w \<Rightarrow> turn list \<Rightarrow> chat_request list \<Rightarrow> turn list \<times> 'w" where
  "chat_calls e w hist [] = (hist, w)"
| "chat_calls e w hist (q # qs) =
     (case chat e w hist (req_message q) (req_system_prompt q) (req_max_iterations q) of
        (r, hist1, w1) \<Rightarrow> chat_calls e w1 hist1 qs)"

text \<open>
  Every call of the sequence asks the model at least once, and the model's first
  answer to it is an assistant message without tool calls.
\<close>

fun answered_plainly :: "'w env \<Rightarrow> 'w \<Rightarrow> turn list \<Rightarrow> chat_request list \<Rightarrow> bool" where
  "answered_plainly e w hist [] = True"
| "answered_plainly e w hist (q # qs) =
     (0 < req_max_iterations q \<and>
      (case completions_create e w (append_prompts hist (req_message q) (req_system_prompt q)) of
         (Inr m, w1) \<Rightarrow> \<not> has_tool_calls m
       | (Inl ex, w1) \<Rightarrow> False) \<and>
      (case chat e w hist (req_message q) (req_system_prompt q) (req_max_iterations q) of
         (r, hist1, w1) \<Rightarrow> answered_plainly e w1 hist1 qs))"

section \<open>Invariant of the assistant turns\<close>

definition assistant_turn_ok :: "turn \<Rightarrow> bool" where
  "assistant_turn_ok t = (role t \<noteq> Assistant \<or> tool_calls t \<noteq> Some [])"

definition history_ok :: "turn list \<Rightarrow> bool" where
  "history_ok hist = list_all assistant_turn_ok hist"

text \<open>
  The second history is the first one with turns appended, none of them an assistant
  turn with an empty \<^verbatim>\<open>tool_calls\<close>.
\<close>

definition appends_ok :: "turn list \<Rightarrow> turn list \<Rightarrow> bool" where
  "appends_ok hist hist' =
     (take (length hist) hist' = hist \<and> history_ok (drop (length hist) hist'))"

section \<open>The history as an object\<close>

text \<open>
  \<^verbatim>\<open>reset_conversation\<close> and \<^verbatim>\<open>get_conversation_history\<close> are about
  which list object is which, so they are modelled on a store of objects: a list
  object holds references to dictionary objects, \<open>next_ref\<close> is the first reference
  never handed out. The session holds a reference to its list.
  \<^verbatim>\<open>chat\<close> and \<^verbatim>\<open>chat_streaming\<close> only append new dictionaries to that
  list; they are modelled above on its contents.
\<close>

type_synonym ref = nat

record store =
  list_obj :: "ref \<Rightarrow> ref list"
  dict_obj :: "ref \<Rightarrow> turn"
  next_ref :: ref

record session =
  conversation_history :: ref

definition new_list :: "store \<Rightarrow> ref list \<Rightarrow> ref \<times> store" where
  "new_list st xs =
     (next_ref st, st\<lparr>list_obj := (list_obj st)(next_ref st := xs), next_ref := Suc (next_ref st)\<rparr>)"

definition new_dict :: "store \<Rightarrow> turn \<Rightarrow> ref \<times> store" where
  "new_dict st t =
     (next_ref st, st\<lparr>dict_obj := (dict_obj st)(next_ref st := t), next_ref := Suc (next_ref st)\<rparr>)"

text \<open>\<^verbatim>\<open>self.conversation_history = []\<close>.\<close>

definition reset_conversation :: "store \<Rightarrow> session \<Rightarrow> store \<times> session" where
  "reset_conversation st s =
     (case new_list st [] of (l, st1) \<Rightarrow> (st1, s\<lparr>conversation_history := l\<rparr>))"

text \<open>\<^verbatim>\<open>return self.conversation_history.copy()\<close>: a new list of the same references.\<close>

definition get_conversation_history :: "store \<Rightarrow> session \<Rightarrow> ref \<times> store" where
  "get_conversation_history st s = new_list st (list_obj st (conversation_history s))"

text \<open>
  \<^verbatim>\<open>integration.conversation_history.append({...})\<close>, as \<^verbatim>\<open>reset_session\<close>
  of \<^verbatim>\<open>src/client/main.py\<close> does after the reset (lines 744 to 747), and
  \<^verbatim>\<open>lst.append({...})\<close> on any list.
\<close>

definition list_append :: "store \<Rightarrow> ref \<Rightarrow> turn \<Rightarrow> store" where
  "list_append st l t =
     (case new_dict st t of
        (d, st1) \<Rightarrow> st1\<lparr>list_obj := (list_obj st1)(l := list_obj st1 l @ [d])\<rparr>)"

text \<open>The turns a list object holds, read through its references.\<close>

definition read_list :: "store \<Rightarrow> ref \<Rightarrow> turn list" where
  "read_list st l = map (dict_obj st) (list_obj st l)"

text \<open>
  What the holder of a list can do to it. The first four change the list itself
  (\<^verbatim>\<open>lst.append({...})\<close>, \<^verbatim>\<open>lst[i] = {...}\<close>, \<^verbatim>\<open>del lst[i]\<close>,
  \<^verbatim>\<open>lst.clear()\<close>); the last one changes a turn the list refers to
  (\<^verbatim>\<open>lst[i]["content"] = c\<close>). Indices count from the front; out of range,
  Python raises \<^verbatim>\<open>IndexError\<close> and the store stays as it is.
\<close>

datatype mutation =
    ListAppend turn
  | ListSetItem nat turn
  | ListDelItem nat
  | ListClear
  | TurnSetContent nat "string option"

fun changes_list_only :: "mutation \<Rightarrow> bool" where
  "changes_list_only (TurnSetContent i c) = False"
| "changes_list_only m = True"

fun mutate :: "ref \<Rightarrow> store \<Rightarrow> mutation \<Rightarrow> store" where
  "mutate l st (ListAppend t) = list_append st l t"
| "mutate l st (ListSetItem i t) =
     (if i < length (list_obj st l)
      then (case new_dict st t of
              (d, st1) \<Rightarrow> st1\<lparr>list_obj := (list_obj st1)(l := (list_obj st1 l)[i := d])\<rparr>)
      else st)"
| "mutate l st (ListDelItem i) =
     (if i < length (list_obj st l)
      then st\<lparr>list_obj := (list_obj st)(l := take i (list_obj st l) @ drop (Suc i) (list_obj st l))\<rparr>
      else st)"
| "mutate l st ListClear = st\<lparr>list_obj := (list_obj st)(l := [])\<rparr>"
| "mutate l st (TurnSetContent i c) =
     (if i < length (list_obj st l)
      then st\<lparr>dict_obj := (dict_obj st)(list_obj st l ! i := (dict_obj st (list_obj st l ! i))\<lparr>content := c\<rparr>)\<rparr>
      else st)"

text \<open>
  The session's list and the dictionaries it refers to have been allocated: their
  references are below \<open>next_ref\<close>.
\<close>

definition allocated :: "store \<Rightarrow> session \<Rightarrow> bool" where
  "allocated st s =
     (conversation_history s < next_ref st \<and>
      list_all (\<lambda>d. d < next_ref st) (list_obj st (conversation_history s)))"

section \<open>Fixtures\<close>

text \<open>
  Concrete collaborators for the examples. The world counts the model requests.
  The model answers its \<open>n\<close>-th request with the \<open>n\<close>-th message of a script, and
  with one fixed message once the script is used up; a stream has the given chunks.
  The tool provider answers one tool; it rejects the calling convention of two
  others, of which one times out on the retry with unpacked arguments and one
  answers it; it knows no other tool. The message for unpacking a value that is not
  a mapping has the form Python gives it, with a callee name chosen here. The
  decoder is right on the two argument strings the examples use: \<^verbatim>\<open>{}\<close> is
  the empty mapping, \<^verbatim>\<open>{\<close> is malformed.
\<close>

definition fixture_call_tool ::
  "nat \<Rightarrow> string \<Rightarrow> call_args \<Rightarrow> (py_exception + string) \<times> nat" where
  "fixture_call_tool w tool_name args =
     (if tool_name = ''execute_select_query'' then (Inr ''8.0.36'', w)
      else if tool_name = ''legacy_tool'' then
        (case args of
           Arguments a \<Rightarrow> (Inl (TypeError ''unexpected keyword argument''), w)
         | Unpacked kwargs \<Rightarrow> (Inl (OtherException ''timed out''), w))
      else if tool_name = ''keyword_tool'' then
        (case args of
           Arguments a \<Rightarrow> (Inl (TypeError ''unexpected keyword argument''), w)
         | Unpacked kwargs \<Rightarrow> (Inr ''ok'', w))
      else (Inl (OtherException ''Unknown tool''), w))"

text \<open>\<^verbatim>\<open>type(v).__name__\<close> of a decoded value.\<close>

fun py_type_name :: "json \<Rightarrow> string" where
  "py_type_name JNull = ''NoneType''"
| "py_type_name (JBool b) = ''bool''"
| "py_type_name (JInt i) = ''int''"
| "py_type_name (JFloat f) = ''float''"
| "py_type_name (JStr s) = ''str''"
| "py_type_name (JList xs) = ''list''"
| "py_type_name (JDict kvs) = ''dict''"

definition fixture_json_loads :: "string \<Rightarrow> py_exception + json" where
  "fixture_json_loads s =
     (if s = ''{}'' then Inr (JDict [])
      else Inl (JSONDecodeError
        ''Expecting property name enclosed in double quotes: line 1 column 2 (char 1)''))"

definition scripted_env ::
  "assistant_message list \<Rightarrow> assistant_message \<Rightarrow> string option list \<Rightarrow> nat env" where
  "scripted_env script final chunks =
     \<lparr>completions_create =
        (\<lambda>w hist. (Inr (if w < length script then script ! w else final), Suc w)),
      completions_create_stream = (\<lambda>w hist. (Inr (map Inr chunks), Suc w)),
      call_tool = fixture_call_tool,
      unpack_error =
        (\<lambda>a. ''fastmcp.client.client.Client.call_tool() argument after ** must be a mapping, not ''
              @ py_type_name a),
      json_loads = fixture_json_loads\<rparr>"

text \<open>The same, with a stream whose second chunk fails.\<close>

definition broken_stream_env :: "nat env" where
  "broken_stream_env =
     (scripted_env [] \<lparr>msg_content = Some ''x'', msg_tool_calls = None\<rparr> [])
       \<lparr>completions_create_stream :=
          (\<lambda>w hist. (Inr [Inr (Some ''a''), Inl (OtherException ''Connection lost''),
                            Inr (Some ''b'')], Suc w))\<rparr>"

definition query_call :: "string \<Rightarrow> string \<Rightarrow> tool_call" where
  "query_call call_id args =
     \<lparr>tc_id = call_id, tc_type = ''function'',
      fn_name = ''execute_select_query'', fn_arguments = args\<rparr>"

definition unknown_call :: "string \<Rightarrow> tool_call" where
  "unknown_call call_id =
     \<lparr>tc_id = call_id, tc_type = ''function'', fn_name = ''drop_table'', fn_arguments = ''{}''\<rparr>"

definition asks :: "tool_call list \<Rightarrow> assistant_message" where
  "asks tcs = \<lparr>msg_content = None, msg_tool_calls = Some tcs\<rparr>"

definition says :: "string \<Rightarrow> assistant_message" where
  "says c = \<lparr>msg_content = Some c, msg_tool_calls = None\<rparr>"

definition user_turn :: "string \<Rightarrow> turn" where
  "user_turn c = \<lparr>role = User, content = Some c, tool_calls = None, tool_call_id = None\<rparr>"

definition system_turn :: "string \<Rightarrow> turn" where
  "system_turn c = \<lparr>role = System, content = Some c, tool_calls = None, tool_call_id = None\<rparr>"

definition empty_store :: store where
  "empty_store = \<lparr>list_obj = (\<lambda>l. []), dict_obj = (\<lambda>d. user_turn []), next_ref = 0\<rparr>"

text \<open>
  A session as \<^verbatim>\<open>__init__\<close> leaves it (a new empty list), with one user turn
  appended.
\<close>

definition one_turn_session :: "store \<times> session" where
  "one_turn_session =
     (case reset_conversation empty_store \<lparr>conversation_history = 0\<rparr> of
        (st, s) \<Rightarrow> (list_append st (conversation_history s) (user_turn ''hi''), s))"

section \<open>The tool invoker never raises\<close>

lemma execute_tool_call_returns:
  "\<exists>s w'. execute_tool_call e w tool_name arguments = (Inr s, w')"
  by (auto simp: execute_tool_call_def split: prod.splits sum.splits py_exception.splits)

lemma execute_tool_call_first_result:
  "call_tool e w tool_name (Arguments arguments) = (Inr r, w1) \<Longrightarrow>
   execute_tool_call e w tool_name arguments = (Inr r, w1)"
  by (simp add: execute_tool_call_def)

lemma execute_tool_call_first_failure:
  "call_tool e w tool_name (Arguments arguments) = (Inl ex, w1) \<Longrightarrow>
   \<forall>m. ex \<noteq> TypeError m \<Longrightarrow>
   execute_tool_call e w tool_name arguments = (Inr (error_calling_tool tool_name ex), w1)"
  by (cases ex) (simp_all add: execute_tool_call_def)

lemma execute_tool_call_retry_failure:
  "call_tool e w tool_name (Arguments arguments) = (Inl (TypeError m), w1) \<Longrightarrow>
   call_tool_unpacked e w1 tool_name arguments = (Inl ex, w2) \<Longrightarrow>
   execute_tool_call e w tool_name arguments = (Inr (error_calling_tool tool_name ex), w2)"
  by (simp add: execute_tool_call_def)

lemma execute_tool_call_retry_result:
  "call_tool e w tool_name (Arguments arguments) = (Inl (TypeError m), w1) \<Longrightarrow>
   call_tool_unpacked e w1 tool_name arguments = (Inr r, w2) \<Longrightarrow>
   execute_tool_call e w tool_name arguments = (Inr r, w2)"
  by (simp add: execute_tool_call_def)

text \<open>
  Claim C4, as amended. For every tool name and every decoded argument value,
  whatever the provider does, \<^verbatim>\<open>_execute_tool_call\<close> returns a string and
  raises nothing. A result of the first call is returned as it is. A failure of the
  first call other than \<^verbatim>\<open>TypeError\<close> is returned as the tag
  \<^verbatim>\<open>Error calling tool\<close>, the name of the tool, a colon and the message of the
  exception. A \<^verbatim>\<open>TypeError\<close> of the first call is caught and the call is made
  again with the arguments unpacked: a failure of that second call is returned as
  the same tagged text, and a result of it is returned as it is, with no error text.
\<close>

theorem execute_tool_call_never_raises:
  "(\<exists>s w'. execute_tool_call e w tool_name arguments = (Inr s, w')) \<and>
   (\<forall>r w1. call_tool e w tool_name (Arguments arguments) = (Inr r, w1) \<longrightarrow>
      execute_tool_call e w tool_name arguments = (Inr r, w1)) \<and>
   (\<forall>ex w1. call_tool e w tool_name (Arguments arguments) = (Inl ex, w1) \<and>
        (\<forall>m. ex \<noteq> TypeError m) \<longrightarrow>
      execute_tool_call e w tool_name arguments =
        (Inr (''Error calling tool '' @ tool_name @ '': '' @ exc_str ex), w1)) \<and>
   (\<forall>m w1 ex w2. call_tool e w tool_name (Arguments arguments) = (Inl (TypeError m), w1) \<and>
        call_tool_unpacked e w1 tool_name arguments = (Inl ex, w2) \<longrightarrow>
      execute_tool_call e w tool_name arguments =
        (Inr (''Error calling tool '' @ tool_name @ '': '' @ exc_str ex), w2)) \<and>
   (\<forall>m w1 r w2. call_tool e w tool_name (Arguments arguments) = (Inl (TypeError m), w1) \<and>
        call_tool_unpacked e w1 tool_name arguments = (Inr r, w2) \<longrightarrow>
      execute_tool_call e w tool_name arguments = (Inr r, w2))"
proof (intro conjI allI impI)
  show "\<exists>s w'. execute_tool_call e w tool_name arguments = (Inr s, w')"
    by (rule execute_tool_call_returns)
next
  fix r w1
  assume "call_tool e w tool_name (Arguments arguments) = (Inr r, w1)"
  then show "execute_tool_call e w tool_name arguments = (Inr r, w1)"
    by (rule execute_tool_call_first_result)
next
  fix ex w1
  assume "call_tool e w tool_name (Arguments arguments) = (Inl ex, w1) \<and> (\<forall>m. ex \<noteq> TypeError m)"
  then show "execute_tool_call e w tool_name arguments =
        (Inr (''Error calling tool '' @ tool_name @ '': '' @ exc_str ex), w1)"
    using execute_tool_call_first_failure [of e w tool_name arguments ex w1]
    by (simp add: error_calling_tool_def)
next
  fix m w1 ex w2
  assume "call_tool e w tool_name (Arguments arguments) = (Inl (TypeError m), w1) \<and>
        call_tool_unpacked e w1 tool_name arguments = (Inl ex, w2)"
  then show "execute_tool_call e w tool_name arguments =
        (Inr (''Error calling tool '' @ tool_name @ '': '' @ exc_str ex), w2)"
    using execute_tool_call_retry_failure [of e w tool_name arguments m w1 ex w2]
    by (simp add: error_calling_tool_def)
next
  fix m w1 r w2
  assume "call_tool e w tool_name (Arguments arguments) = (Inl (TypeError m), w1) \<and>
        call_tool_unpacked e w1 tool_name arguments = (Inr r, w2)"
  then show "execute_tool_call e w tool_name arguments = (Inr r, w2)"
    using execute_tool_call_retry_result [of e w tool_name arguments m w1 r w2]
    by simp
qed

theorem execute_tool_call_never_raises_witness:
  "execute_tool_call (scripted_env [] (says []) []) 0 ''execute_select_query'' (JDict []) =
     (Inr ''8.0.36'', 0) \<and>
   execute_tool_call (scripted_env [] (says []) []) 0 ''drop_table'' (JDict []) =
     (Inr ''Error calling tool drop_table: Unknown tool'', 0) \<and>
   execute_tool_call (scripted_env [] (says []) []) 0 ''legacy_tool'' (JDict []) =
     (Inr ''Error calling tool legacy_tool: timed out'', 0) \<and>
   (\<exists>msg. execute_tool_call (scripted_env [] (says []) []) 0 ''legacy_tool'' (JInt 5) =
     (Inr (''Error calling tool legacy_tool: '' @ msg), 0)) \<and>
   execute_tool_call (scripted_env [] (says []) []) 0 ''keyword_tool'' (JDict []) =
     (Inr ''ok'', 0)"
proof -
  let ?e = "scripted_env [] (says []) []"
  have z: "call_tool ?e 0 ''execute_select_query'' (Arguments (JDict [])) = (Inr ''8.0.36'', 0)"
    by (simp add: scripted_env_def fixture_call_tool_def)
  have a: "call_tool ?e 0 ''drop_table'' (Arguments (JDict [])) =
             (Inl (OtherException ''Unknown tool''), 0) \<and>
           (\<forall>m. OtherException ''Unknown tool'' \<noteq> TypeError m)"
    by (simp add: scripted_env_def fixture_call_tool_def)
  have b: "call_tool ?e 0 ''legacy_tool'' (Arguments (JDict [])) =
             (Inl (TypeError ''unexpected keyword argument''), 0) \<and>
           call_tool_unpacked ?e 0 ''legacy_tool'' (JDict []) =
             (Inl (OtherException ''timed out''), 0)"
    by (simp add: scripted_env_def fixture_call_tool_def call_tool_unpacked_def)
  have c: "call_tool ?e 0 ''legacy_tool'' (Arguments (JInt 5)) =
             (Inl (TypeError ''unexpected keyword argument''), 0) \<and>
           call_tool_unpacked ?e 0 ''legacy_tool'' (JInt 5) =
             (Inl (TypeError (unpack_error ?e (JInt 5))), 0)"
    by (simp add: scripted_env_def fixture_call_tool_def call_tool_unpacked_def)
  have d: "call_tool ?e 0 ''keyword_tool'' (Arguments (JDict [])) =
             (Inl (TypeError ''unexpected keyword argument''), 0) \<and>
           call_tool_unpacked ?e 0 ''keyword_tool'' (JDict []) = (Inr ''ok'', 0)"
    by (simp add: scripted_env_def fixture_call_tool_def call_tool_unpacked_def)
  from z execute_tool_call_never_raises [of ?e 0 "''execute_select_query''" "JDict []"]
  have 0: "execute_tool_call ?e 0 ''execute_select_query'' (JDict []) = (Inr ''8.0.36'', 0)"
    by simp
  from a execute_tool_call_never_raises [of ?e 0 "''drop_table''" "JDict []"]
  have 1: "execute_tool_call ?e 0 ''drop_table'' (JDict []) =
     (Inr ''Error calling tool drop_table: Unknown tool'', 0)"
    by simp
  from b execute_tool_call_never_raises [of ?e 0 "''legacy_tool''" "JDict []"]
  have 2: "execute_tool_call ?e 0 ''legacy_tool'' (JDict []) =
     (Inr ''Error calling tool legacy_tool: timed out'', 0)"
    by simp
  from c execute_tool_call_never_raises [of ?e 0 "''legacy_tool''" "JInt 5"]
  have "execute_tool_call ?e 0 ''legacy_tool'' (JInt 5) =
     (Inr (''Error calling tool legacy_tool: '' @ unpack_error ?e (JInt 5)), 0)"
    by simp
  then have 3: "\<exists>msg. execute_tool_call ?e 0 ''legacy_tool'' (JInt 5) =
     (Inr (''Error calling tool legacy_tool: '' @ msg), 0)"
    by (rule exI)
  from d execute_tool_call_never_raises [of ?e 0 "''keyword_tool''" "JDict []"]
  have 4: "execute_tool_call ?e 0 ''keyword_tool'' (JDict []) = (Inr ''ok'', 0)"
    by simp
  from 0 1 2 3 4 show ?thesis by (intro conjI)
qed

text \<open>
  Claim C4 as stated fails: the first call of the provider fails with
  \<^verbatim>\<open>TypeError\<close>, the retry with unpacked arguments answers, and what
  \<^verbatim>\<open>_execute_tool_call\<close> returns is that answer; no error text reports the
  failure (lines 166 to 170).
\<close>

theorem execute_tool_call_retry_hides_failure_counterexample:
  "call_tool (scripted_env [] (says []) []) 0 ''keyword_tool'' (Arguments (JDict [])) =
     (Inl (TypeError ''unexpected keyword argument''), 0) \<and>
   execute_tool_call (scripted_env [] (says []) []) 0 ''keyword_tool'' (JDict []) =
     (Inr ''ok'', 0) \<and>
   take 18 ''ok'' \<noteq> ''Error calling tool''"
  by (simp add: execute_tool_call_def call_tool_unpacked_def scripted_env_def
      fixture_call_tool_def)

section \<open>The loop, step by step\<close>

lemma chat_loop_budget:
  "\<not> iteration < max_iterations \<Longrightarrow>
   chat_loop e iteration max_iterations w hist = (Inr budget_exhausted, hist, w)"
  by (simp add: chat_loop.simps)

lemma chat_loop_plain_answer:
  "iteration < max_iterations \<Longrightarrow>
   completions_create e w hist = (Inr m, w1) \<Longrightarrow>
   \<not> has_tool_calls m \<Longrightarrow>
   chat_loop e iteration max_iterations w hist =
     (Inr (case msg_content m of None \<Rightarrow> [] | Some c \<Rightarrow> c), hist @ [message_dict m], w1)"
  by (simp add: chat_loop.simps)

lemma chat_loop_provider_failure:
  "iteration < max_iterations \<Longrightarrow>
   completions_create e w hist = (Inl ex, w1) \<Longrightarrow>
   chat_loop e iteration max_iterations w hist = (Inl ex, hist, w1)"
  by (simp add: chat_loop.simps)

lemma chat_loop_act:
  "iteration < max_iterations \<Longrightarrow>
   completions_create e w hist = (Inr m, w1) \<Longrightarrow>
   msg_tool_calls m = Some tcs \<Longrightarrow> tcs \<noteq> [] \<Longrightarrow>
   chat_loop e iteration max_iterations w hist =
     (case run_tool_calls e w1 (hist @ [message_dict m]) tcs of
        (Inl ex, hist2, w2) \<Rightarrow> (Inl ex, hist2, w2)
      | (Inr u, hist2, w2) \<Rightarrow> chat_loop e (iteration + 1) max_iterations w2 hist2)"
  by (subst chat_loop.simps) (simp add: has_tool_calls_def)

lemma run_tool_calls_decodable:
  "\<forall>tc\<in>set tcs. \<exists>a. json_loads e (fn_arguments tc) = Inr a \<Longrightarrow>
   \<exists>tts w2. run_tool_calls e w hist tcs = (Inr (), hist @ tts, w2) \<and>
     map tool_call_id tts = map (\<lambda>tc. Some (tc_id tc)) tcs \<and>
     list_all (\<lambda>t. role t = Tool) tts"
proof (induction tcs arbitrary: w hist)
  case Nil
  then show ?case by simp
next
  case (Cons tc tcs)
  from Cons.prems obtain a where a: "json_loads e (fn_arguments tc) = Inr a"
    by auto
  obtain r w1 where r: "execute_tool_call e w (fn_name tc) a = (r, w1)"
    by (cases "execute_tool_call e w (fn_name tc) a")
  define res where
    "res = (case r of Inr s \<Rightarrow> s | Inl ex \<Rightarrow> ''Error executing tool: '' @ exc_str ex)"
  from Cons.prems have "\<forall>tc\<in>set tcs. \<exists>a. json_loads e (fn_arguments tc) = Inr a"
    by simp
  from Cons.IH [OF this, of w1 "hist @ [tool_turn tc res]"]
  obtain tts w2 where
    run: "run_tool_calls e w1 (hist @ [tool_turn tc res]) tcs =
            (Inr (), (hist @ [tool_turn tc res]) @ tts, w2)" and
    ids: "map tool_call_id tts = map (\<lambda>tc. Some (tc_id tc)) tcs" and
    roles: "list_all (\<lambda>t. role t = Tool) tts"
    by blast
  have "run_tool_calls e w hist (tc # tcs) = (Inr (), hist @ (tool_turn tc res # tts), w2)"
    using a r run by (simp add: res_def)
  moreover have "map tool_call_id (tool_turn tc res # tts) = map (\<lambda>tc. Some (tc_id tc)) (tc # tcs)"
    using ids by (simp add: tool_turn_def)
  moreover have "list_all (\<lambda>t. role t = Tool) (tool_turn tc res # tts)"
    using roles by (simp add: tool_turn_def)
  ultimately show ?case by blast
qed

lemma chat_loop_tool_step:
  assumes "iteration < max_iterations"
    and "completions_create e w hist = (Inr m, w1)"
    and "msg_tool_calls m = Some tcs" and "tcs \<noteq> []"
    and "\<forall>tc\<in>set tcs. \<exists>a. json_loads e (fn_arguments tc) = Inr a"
  shows "\<exists>tts w2.
      map tool_call_id tts = map (\<lambda>tc. Some (tc_id tc)) tcs \<and>
      list_all (\<lambda>t. role t = Tool) tts \<and>
      run_tool_calls e w1 (hist @ [message_dict m]) tcs =
        (Inr (), hist @ [message_dict m] @ tts, w2) \<and>
      chat_loop e iteration max_iterations w hist =
        chat_loop e (iteration + 1) max_iterations w2 (hist @ [message_dict m] @ tts)"
proof -
  from run_tool_calls_decodable [OF assms(5), of w1 "hist @ [message_dict m]"]
  obtain tts w2 where
    run: "run_tool_calls e w1 (hist @ [message_dict m]) tcs =
            (Inr (), (hist @ [message_dict m]) @ tts, w2)" and
    ids: "map tool_call_id tts = map (\<lambda>tc. Some (tc_id tc)) tcs" and
    roles: "list_all (\<lambda>t. role t = Tool) tts"
    by blast
  have "chat_loop e iteration max_iterations w hist =
        chat_loop e (iteration + 1) max_iterations w2 (hist @ [message_dict m] @ tts)"
    using chat_loop_act [OF assms(1-4)] run by simp
  with run ids roles show ?thesis by auto
qed

lemma chat_loop_always_tools:
  assumes always: "\<forall>w h. \<exists>m w1 tcs. completions_create e w h = (Inr m, w1) \<and>
      msg_tool_calls m = Some tcs \<and> tcs \<noteq> [] \<and>
      (\<forall>tc\<in>set tcs. \<exists>a. json_loads e (fn_arguments tc) = Inr a)"
  shows "nat (max_iterations - iteration) = n \<Longrightarrow>
    \<exists>hist' w'. chat_loop e iteration max_iterations w hist = (Inr budget_exhausted, hist', w') \<and>
      length (filter (\<lambda>t. role t = Assistant) hist') =
        length (filter (\<lambda>t. role t = Assistant) hist) + n"
proof (induction n arbitrary: iteration w hist)
  case 0
  then have "\<not> iteration < max_iterations" by simp
  then show ?case by (simp add: chat_loop_budget)
next
  case (Suc n)
  then have lt: "iteration < max_iterations" by simp
  from always obtain m w1 tcs where
    m: "completions_create e w hist = (Inr m, w1)" "msg_tool_calls m = Some tcs" "tcs \<noteq> []"
       "\<forall>tc\<in>set tcs. \<exists>a. json_loads e (fn_arguments tc) = Inr a"
    by blast
  from chat_loop_tool_step [OF lt m]
  obtain tts w2 where
    roles: "list_all (\<lambda>t. role t = Tool) tts" and
    step: "chat_loop e iteration max_iterations w hist =
        chat_loop e (iteration + 1) max_iterations w2 (hist @ [message_dict m] @ tts)"
    by blast
  from Suc.prems have "nat (max_iterations - (iteration + 1)) = n" by simp
  from Suc.IH [OF this, of w2 "hist @ [message_dict m] @ tts"]
  obtain hist' w' where
    res: "chat_loop e (iteration + 1) max_iterations w2 (hist @ [message_dict m] @ tts) =
            (Inr budget_exhausted, hist', w')" and
    cnt: "length (filter (\<lambda>t. role t = Assistant) hist') =
            length (filter (\<lambda>t. role t = Assistant) (hist @ [message_dict m] @ tts)) + n"
    by blast
  from roles have "filter (\<lambda>t. role t = Assistant) tts = []"
    by (induction tts) auto
  then have "length (filter (\<lambda>t. role t = Assistant) (hist @ [message_dict m] @ tts)) =
      length (filter (\<lambda>t. role t = Assistant) hist) + 1"
    by (simp add: message_dict_def)
  with step res cnt show ?case by simp
qed

lemma append_prompts_no_assistant:
  "filter (\<lambda>t. role t = Assistant) (append_prompts hist um sp) =
   filter (\<lambda>t. role t = Assistant) hist"
  by (simp add: append_prompts_def split: option.splits)

text \<open>
  Whatever the collaborators are, a first request whose arguments do not decode ends
  the loop with the decoder's exception, the assistant turn being the last of the
  history.
\<close>

lemma chat_loop_undecodable:
  "iteration < max_iterations \<Longrightarrow>
   completions_create e w hist = (Inr m, w1) \<Longrightarrow>
   msg_tool_calls m = Some (tc # tcs) \<Longrightarrow>
   json_loads e (fn_arguments tc) = Inl ex \<Longrightarrow>
   chat_loop e iteration max_iterations w hist = (Inl ex, hist @ [message_dict m], w1)"
  using chat_loop_act [of iteration max_iterations e w hist m w1 "tc # tcs"]
  by simp

section \<open>Malformed arguments\<close>

text \<open>
  Claim C1. The claim asks that a tool call whose arguments do not decode becomes a
  tool turn with an error text and that the loop goes on. In the code
  \<^verbatim>\<open>json.loads\<close> stands outside the \<^verbatim>\<open>try\<close> (line 250): here the
  model asks for one tool call with the arguments \<^verbatim>\<open>{\<close>, and
  \<^verbatim>\<open>chat\<close> raises \<^verbatim>\<open>JSONDecodeError\<close>; the history ends with the
  assistant turn that carries the request, and no tool turn answers it.
\<close>

theorem chat_raises_on_malformed_arguments:
  "chat (scripted_env [] (asks [query_call ''call_1'' ''{'']) []) 0 [] ''q'' None 10 =
     (Inl (JSONDecodeError
        ''Expecting property name enclosed in double quotes: line 1 column 2 (char 1)''),
      [user_turn ''q'', message_dict (asks [query_call ''call_1'' ''{''])],
      1)"
  by (simp add: chat_def chat_loop.simps append_prompts_def scripted_env_def asks_def
      has_tool_calls_def query_call_def fixture_json_loads_def user_turn_def)

section \<open>Plain answers\<close>

text \<open>
  Claim C6. When the assistant message of the model carries no tool calls (the list
  is absent or empty), \<^verbatim>\<open>chat\<close> returns the content of that message, and the
  empty string when the content is \<^verbatim>\<open>None\<close>; the assistant turn is the last of
  the history. This holds at every iteration of the loop (first part) and so for the
  first answer to a call of \<^verbatim>\<open>chat\<close> (second part).
\<close>

theorem chat_returns_content_without_tool_calls:
  "(iteration < max_iterations \<and> completions_create e w hist = (Inr m, w1) \<and>
      \<not> has_tool_calls m \<longrightarrow>
    chat_loop e iteration max_iterations w hist =
      (Inr (case msg_content m of None \<Rightarrow> '''' | Some c \<Rightarrow> c), hist @ [message_dict m], w1)) \<and>
   (0 < max_iterations \<and>
      completions_create e w (append_prompts hist user_message system_prompt) = (Inr m, w1) \<and>
      \<not> has_tool_calls m \<longrightarrow>
    chat e w hist user_message system_prompt max_iterations =
      (Inr (case msg_content m of None \<Rightarrow> '''' | Some c \<Rightarrow> c),
       append_prompts hist user_message system_prompt @ [message_dict m], w1))"
  by (simp add: chat_def chat_loop_plain_answer)

theorem chat_returns_content_without_tool_calls_witness:
  "fst (chat (scripted_env [] (says ''hello'') []) 0 [] ''q'' None 10) = Inr ''hello'' \<and>
   fst (chat (scripted_env [] \<lparr>msg_content = None, msg_tool_calls = Some []\<rparr> []) 0 [] ''q'' None 10) =
     Inr '''' \<and>
   fst (chat_loop (scripted_env [asks [query_call ''call_1'' ''{}'']] (says ''8.0.36'') []) 1 10 1
      [user_turn ''q'', message_dict (asks [query_call ''call_1'' ''{}'']),
       tool_turn (query_call ''call_1'' ''{}'') ''8.0.36'']) = Inr ''8.0.36''"
proof -
  let ?e1 = "scripted_env [] (says ''hello'') []"
  let ?m2 = "\<lparr>msg_content = None, msg_tool_calls = Some []\<rparr>"
  let ?e2 = "scripted_env [] ?m2 []"
  let ?e3 = "scripted_env [asks [query_call ''call_1'' ''{}'']] (says ''8.0.36'') []"
  let ?h3 = "[user_turn ''q'', message_dict (asks [query_call ''call_1'' ''{}'']),
       tool_turn (query_call ''call_1'' ''{}'') ''8.0.36'']"
  have a: "(0::int) < 10 \<and>
      completions_create ?e1 0 (append_prompts [] ''q'' None) = (Inr (says ''hello''), 1) \<and>
      \<not> has_tool_calls (says ''hello'')"
    by (simp add: scripted_env_def says_def has_tool_calls_def)
  have b: "(0::int) < 10 \<and>
      completions_create ?e2 0 (append_prompts [] ''q'' None) = (Inr ?m2, 1) \<and>
      \<not> has_tool_calls ?m2"
    by (simp add: scripted_env_def has_tool_calls_def)
  have c: "(1::int) < 10 \<and> completions_create ?e3 1 ?h3 = (Inr (says ''8.0.36''), 2) \<and>
      \<not> has_tool_calls (says ''8.0.36'')"
    by (simp add: scripted_env_def says_def has_tool_calls_def)
  from a chat_returns_content_without_tool_calls [of 0 10 ?e1 0 "[]" "says ''hello''" 1 "''q''" None]
  have 1: "fst (chat ?e1 0 [] ''q'' None 10) = Inr ''hello''"
    by (simp add: says_def)
  from b chat_returns_content_without_tool_calls [of 0 10 ?e2 0 "[]" ?m2 1 "''q''" None]
  have 2: "fst (chat ?e2 0 [] ''q'' None 10) = Inr ''''"
    by simp
  from c chat_returns_content_without_tool_calls [of 1 10 ?e3 1 ?h3 "says ''8.0.36''" 2]
  have 3: "fst (chat_loop ?e3 1 10 1 ?h3) = Inr ''8.0.36''"
    by (simp add: says_def)
  from 1 2 3 show ?thesis by simp
qed

section \<open>Tool turns\<close>

text \<open>
  Claim C2. When the assistant turn carries \<open>k\<close> tool-call requests, none empty and
  all with arguments that decode, the \<^verbatim>\<open>for\<close> loop appends exactly \<open>k\<close> tool
  turns after the assistant turn, in the order of the requests, the
  \<^verbatim>\<open>tool_call_id\<close> of each equal to the id of its request; the loop then goes
  on from the history that holds them all, so the next model request, if there is
  one, is issued after them.
\<close>

theorem tool_turns_follow_requests:
  assumes "iteration < max_iterations"
    and "completions_create e w hist = (Inr m, w1)"
    and "msg_tool_calls m = Some tcs" and "tcs \<noteq> []"
    and "\<forall>tc\<in>set tcs. \<exists>a. json_loads e (fn_arguments tc) = Inr a"
  shows "\<exists>tts w2.
      length tts = length tcs \<and>
      map tool_call_id tts = map (\<lambda>tc. Some (tc_id tc)) tcs \<and>
      list_all (\<lambda>t. role t = Tool) tts \<and>
      run_tool_calls e w1 (hist @ [message_dict m]) tcs =
        (Inr (), hist @ [message_dict m] @ tts, w2) \<and>
      chat_loop e iteration max_iterations w hist =
        chat_loop e (iteration + 1) max_iterations w2 (hist @ [message_dict m] @ tts)"
proof -
  from chat_loop_tool_step [OF assms]
  obtain tts w2 where
    ids: "map tool_call_id tts = map (\<lambda>tc. Some (tc_id tc)) tcs" and
    rest: "list_all (\<lambda>t. role t = Tool) tts"
      "run_tool_calls e w1 (hist @ [message_dict m]) tcs =
        (Inr (), hist @ [message_dict m] @ tts, w2)"
      "chat_loop e iteration max_iterations w hist =
        chat_loop e (iteration + 1) max_iterations w2 (hist @ [message_dict m] @ tts)"
    by blast
  from ids have "length (map tool_call_id tts) = length (map (\<lambda>tc. Some (tc_id tc)) tcs)"
    by simp
  then have "length tts = length tcs" by simp
  with ids rest show ?thesis by blast
qed

theorem tool_turns_follow_requests_witness:
  "\<exists>tts w2.
      length tts = 2 \<and>
      map tool_call_id tts = [Some ''call_1'', Some ''call_2''] \<and>
      list_all (\<lambda>t. role t = Tool) tts \<and>
      run_tool_calls
        (scripted_env [asks [query_call ''call_1'' ''{}'', unknown_call ''call_2'']] (says ''done'') [])
        1 [user_turn ''q'',
           message_dict (asks [query_call ''call_1'' ''{}'', unknown_call ''call_2''])]
        [query_call ''call_1'' ''{}'', unknown_call ''call_2''] =
        (Inr (), [user_turn ''q'',
           message_dict (asks [query_call ''call_1'' ''{}'', unknown_call ''call_2''])] @ tts, w2) \<and>
      chat_loop
        (scripted_env [asks [query_call ''call_1'' ''{}'', unknown_call ''call_2'']] (says ''done'') [])
        0 10 0 [user_turn ''q''] =
      chat_loop
        (scripted_env [asks [query_call ''call_1'' ''{}'', unknown_call ''call_2'']] (says ''done'') [])
        1 10 w2
        ([user_turn ''q'',
          message_dict (asks [query_call ''call_1'' ''{}'', unknown_call ''call_2''])] @ tts)"
proof -
  let ?tcs = "[query_call ''call_1'' ''{}'', unknown_call ''call_2'']"
  let ?e = "scripted_env [asks ?tcs] (says ''done'') []"
  have 1: "(0::int) < 10" by simp
  have 2: "completions_create ?e 0 [user_turn ''q''] = (Inr (asks ?tcs), 1)"
    by (simp add: scripted_env_def)
  have 3: "msg_tool_calls (asks ?tcs) = Some ?tcs" by (simp add: asks_def)
  have 4: "?tcs \<noteq> []" by simp
  have 5: "\<forall>tc\<in>set ?tcs. \<exists>a. json_loads ?e (fn_arguments tc) = Inr a"
    by (simp add: scripted_env_def fixture_json_loads_def query_call_def unknown_call_def)
  from tool_turns_follow_requests [OF 1 2 3 4 5]
  obtain tts w2 where
    len: "length tts = length ?tcs" and
    ids: "map tool_call_id tts = map (\<lambda>tc. Some (tc_id tc)) ?tcs" and
    roles: "list_all (\<lambda>t. role t = Tool) tts" and
    run: "run_tool_calls ?e 1 ([user_turn ''q''] @ [message_dict (asks ?tcs)]) ?tcs =
        (Inr (), [user_turn ''q''] @ [message_dict (asks ?tcs)] @ tts, w2)" and
    step: "chat_loop ?e 0 10 0 [user_turn ''q''] =
        chat_loop ?e (0 + 1) 10 w2 ([user_turn ''q''] @ [message_dict (asks ?tcs)] @ tts)"
    by blast
  from len have len2: "length tts = 2" by simp
  from ids have ids2: "map tool_call_id tts = [Some ''call_1'', Some ''call_2'']"
    by (simp add: query_call_def unknown_call_def)
  from run have run2: "run_tool_calls ?e 1 [user_turn ''q'', message_dict (asks ?tcs)] ?tcs =
        (Inr (), [user_turn ''q'', message_dict (asks ?tcs)] @ tts, w2)"
    by simp
  from step have step2: "chat_loop ?e 0 10 0 [user_turn ''q''] =
        chat_loop ?e 1 10 w2 ([user_turn ''q'', message_dict (asks ?tcs)] @ tts)"
    by simp
  show ?thesis
    by (rule exI [of _ tts], rule exI [of _ w2]) (intro conjI len2 ids2 roles run2 step2)
qed

section \<open>Iteration budget\<close>

text \<open>
  When the model answers every request with at least one tool call and the
  arguments of every call decode, \<^verbatim>\<open>chat\<close> returns the fixed
  budget-exhausted string and raises nothing, after exactly
  \<^verbatim>\<open>max_iterations\<close> iterations (none when the bound is not positive): each
  iteration appends one assistant turn, and the history has that many more.
\<close>

lemma budget_message_with_decodable_arguments:
  assumes "\<forall>w h. \<exists>m w1 tcs. completions_create e w h = (Inr m, w1) \<and>
      msg_tool_calls m = Some tcs \<and> tcs \<noteq> [] \<and>
      (\<forall>tc\<in>set tcs. \<exists>a. json_loads e (fn_arguments tc) = Inr a)"
  shows "\<exists>hist' w'.
      chat e w hist user_message system_prompt max_iterations =
        (Inr ''Maximum iterations reached. Please try again with a simpler request.'', hist', w') \<and>
      length (filter (\<lambda>t. role t = Assistant) hist') =
        length (filter (\<lambda>t. role t = Assistant) hist) + nat max_iterations"
  using chat_loop_always_tools [OF assms, of max_iterations 0 "nat max_iterations" w
      "append_prompts hist user_message system_prompt"]
  by (simp add: chat_def append_prompts_no_assistant budget_exhausted_def)

lemma budget_message_with_decodable_arguments_example:
  "fst (chat (scripted_env [] (asks [query_call ''call_1'' ''{}'']) []) 0 [] ''q'' None 1) =
     Inr ''Maximum iterations reached. Please try again with a simpler request.'' \<and>
   length (filter (\<lambda>t. role t = Assistant)
     (fst (snd (chat (scripted_env [] (asks [query_call ''call_1'' ''{}'']) []) 0 [] ''q'' None 1)))) = 1 \<and>
   snd (snd (chat (scripted_env [] (asks [query_call ''call_1'' ''{}'']) []) 0 [] ''q'' None 1)) = 1"
proof -
  let ?e = "scripted_env [] (asks [query_call ''call_1'' ''{}'']) []"
  have h: "\<forall>w h. \<exists>m w1 tcs. completions_create ?e w h = (Inr m, w1) \<and>
      msg_tool_calls m = Some tcs \<and> tcs \<noteq> [] \<and>
      (\<forall>tc\<in>set tcs. \<exists>a. json_loads ?e (fn_arguments tc) = Inr a)"
    by (simp add: scripted_env_def asks_def query_call_def fixture_json_loads_def)
  from budget_message_with_decodable_arguments [OF h, of 0 "[]" "''q''" None 1]
  obtain hist' w' where
    r: "chat ?e 0 [] ''q'' None 1 =
      (Inr ''Maximum iterations reached. Please try again with a simpler request.'', hist', w')"
    and c: "length (filter (\<lambda>t. role t = Assistant) hist') = 1"
    by auto
  have w: "snd (snd (chat ?e 0 [] ''q'' None 1)) = 1"
    by (simp add: chat_def chat_loop.simps append_prompts_def scripted_env_def asks_def
      has_tool_calls_def query_call_def fixture_json_loads_def execute_tool_call_def
      fixture_call_tool_def)
  from r c w show ?thesis by simp
qed

text \<open>
  Claim C3. The claim asks that, for every model that requests at least one tool
  call on every iteration, \<^verbatim>\<open>chat\<close> returns the budget-exhausted string and
  no exception. Here \<^verbatim>\<open>max_iterations\<close> is 1 and the model always asks for
  one tool call, with the malformed arguments \<^verbatim>\<open>{\<close>: after its one model
  request \<^verbatim>\<open>chat\<close> raises \<^verbatim>\<open>JSONDecodeError\<close> and returns no
  string, since \<^verbatim>\<open>json.loads\<close> stands outside the \<^verbatim>\<open>try\<close>
  (line 250).
\<close>

theorem chat_budget_raises_on_malformed_arguments:
  "fst (chat (scripted_env [] (asks [query_call ''call_1'' ''{'']) []) 0 [] ''q'' None 1) \<noteq>
     Inr ''Maximum iterations reached. Please try again with a simpler request.'' \<and>
   chat (scripted_env [] (asks [query_call ''call_1'' ''{'']) []) 0 [] ''q'' None 1 =
     (Inl (JSONDecodeError
        ''Expecting property name enclosed in double quotes: line 1 column 2 (char 1)''),
      [user_turn ''q'', message_dict (asks [query_call ''call_1'' ''{''])],
      1)"
  by (simp add: chat_def chat_loop.simps append_prompts_def scripted_env_def asks_def
      has_tool_calls_def query_call_def fixture_json_loads_def user_turn_def)

section \<open>Length of the history\<close>

lemma append_prompts_length:
  "length (append_prompts hist um sp) =
   length hist + 1 + (if hist = [] \<and> (case sp of Some p \<Rightarrow> p \<noteq> [] | None \<Rightarrow> False) then 1 else 0)"
  by (simp add: append_prompts_def split: option.splits)

lemma append_prompts_not_empty: "append_prompts hist um sp \<noteq> []"
  by (simp add: append_prompts_def)

lemma chat_plain_answer:
  "0 < max_iterations \<Longrightarrow>
   completions_create e w (append_prompts hist um sp) = (Inr m, w1) \<Longrightarrow>
   \<not> has_tool_calls m \<Longrightarrow>
   chat e w hist um sp max_iterations =
     (Inr (case msg_content m of None \<Rightarrow> [] | Some c \<Rightarrow> c),
      append_prompts hist um sp @ [message_dict m], w1)"
  by (simp add: chat_def chat_loop_plain_answer)

lemma chat_calls_plain_nonempty:
  "answered_plainly e w hist qs \<Longrightarrow> hist \<noteq> [] \<Longrightarrow>
   length (fst (chat_calls e w hist qs)) = length hist + 2 * length qs"
proof (induction qs arbitrary: w hist)
  case Nil
  then show ?case by simp
next
  case (Cons q qs)
  from Cons.prems(1) obtain m w1 where
    pos: "0 < req_max_iterations q" and
    m: "completions_create e w (append_prompts hist (req_message q) (req_system_prompt q)) = (Inr m, w1)"
       "\<not> has_tool_calls m"
    by (auto split: prod.splits sum.splits)
  let ?h1 = "append_prompts hist (req_message q) (req_system_prompt q) @ [message_dict m]"
  from chat_plain_answer [OF pos m]
  have c: "chat e w hist (req_message q) (req_system_prompt q) (req_max_iterations q) =
      (Inr (case msg_content m of None \<Rightarrow> [] | Some c \<Rightarrow> c), ?h1, w1)" .
  with Cons.prems(1) have rest: "answered_plainly e w1 ?h1 qs" by simp
  have "?h1 \<noteq> []" by simp
  from Cons.IH [OF rest this] c Cons.prems(2) show ?case
    by (simp add: append_prompts_length)
qed

text \<open>
  Claim C5, as amended. After \<open>N\<close> calls of \<^verbatim>\<open>chat\<close>, each of which asks the
  model (\<^verbatim>\<open>max_iterations\<close> is positive) and gets an answer without tool
  calls, the history is longer by \<open>2N\<close> turns, and by one more when it was empty
  before the first call and that call gave a non-empty system prompt: the system
  turn is then appended by \<^verbatim>\<open>chat\<close> itself (lines 194 to 198).
\<close>

theorem history_grows_by_two_per_plain_call:
  assumes "answered_plainly e w hist qs"
  shows "length (fst (chat_calls e w hist qs)) =
     length hist + 2 * length qs +
     (case qs of
        [] \<Rightarrow> 0
      | q # qs' \<Rightarrow>
          (if hist = [] \<and> (case req_system_prompt q of Some p \<Rightarrow> p \<noteq> [] | None \<Rightarrow> False)
           then 1 else 0))"
proof (cases qs)
  case Nil
  then show ?thesis by simp
next
  case (Cons q qs')
  from assms Cons obtain m w1 where
    pos: "0 < req_max_iterations q" and
    m: "completions_create e w (append_prompts hist (req_message q) (req_system_prompt q)) = (Inr m, w1)"
       "\<not> has_tool_calls m"
    by (auto split: prod.splits sum.splits)
  let ?h1 = "append_prompts hist (req_message q) (req_system_prompt q) @ [message_dict m]"
  from chat_plain_answer [OF pos m]
  have c: "chat e w hist (req_message q) (req_system_prompt q) (req_max_iterations q) =
      (Inr (case msg_content m of None \<Rightarrow> [] | Some c \<Rightarrow> c), ?h1, w1)" .
  with assms Cons have rest: "answered_plainly e w1 ?h1 qs'" by simp
  have "?h1 \<noteq> []" by simp
  from chat_calls_plain_nonempty [OF rest this] c Cons show ?thesis
    by (simp add: append_prompts_length)
qed

theorem history_grows_by_two_per_plain_call_witness:
  "length (fst (chat_calls (scripted_env [] (says ''hello'') []) 0 [system_turn ''sys'']
     [\<lparr>req_message = ''a'', req_system_prompt = None, req_max_iterations = 10\<rparr>,
      \<lparr>req_message = ''b'', req_system_prompt = Some ''sys'', req_max_iterations = 10\<rparr>,
      \<lparr>req_message = ''c'', req_system_prompt = None, req_max_iterations = 1\<rparr>])) = 7 \<and>
   length (fst (chat_calls (scripted_env [] (says ''hello'') []) 0 []
     [\<lparr>req_message = ''a'', req_system_prompt = Some ''sys'', req_max_iterations = 10\<rparr>,
      \<lparr>req_message = ''b'', req_system_prompt = Some ''sys'', req_max_iterations = 10\<rparr>])) = 5"
proof -
  let ?e = "scripted_env [] (says ''hello'') []"
  let ?qs = "[\<lparr>req_message = ''a'', req_system_prompt = None, req_max_iterations = 10\<rparr>,
      \<lparr>req_message = ''b'', req_system_prompt = Some ''sys'', req_max_iterations = 10\<rparr>,
      \<lparr>req_message = ''c'', req_system_prompt = None, req_max_iterations = 1\<rparr>]"
  let ?qs2 = "[\<lparr>req_message = ''a'', req_system_prompt = Some ''sys'', req_max_iterations = 10\<rparr>,
      \<lparr>req_message = ''b'', req_system_prompt = Some ''sys'', req_max_iterations = 10\<rparr>]"
  have a: "answered_plainly ?e 0 [system_turn ''sys''] ?qs"
    by (simp add: chat_def chat_loop.simps scripted_env_def says_def has_tool_calls_def)
  have b: "answered_plainly ?e 0 [] ?qs2"
    by (simp add: chat_def chat_loop.simps scripted_env_def says_def has_tool_calls_def)
  from history_grows_by_two_per_plain_call [OF a]
  have 1: "length (fst (chat_calls ?e 0 [system_turn ''sys''] ?qs)) = 7" by simp
  from history_grows_by_two_per_plain_call [OF b]
  have 2: "length (fst (chat_calls ?e 0 [] ?qs2)) = 5" by simp
  from 1 2 show ?thesis by simp
qed

text \<open>
  Claim C5 as stated fails: on a new session, one call with a system prompt leaves
  three turns (system, user, assistant), not two.
\<close>

theorem history_length_with_system_prompt_counterexample:
  "answered_plainly (scripted_env [] (says ''hello'') []) 0 []
     [\<lparr>req_message = ''q'', req_system_prompt = Some ''sys'', req_max_iterations = 10\<rparr>] \<and>
   length (fst (chat_calls (scripted_env [] (says ''hello'') []) 0 []
     [\<lparr>req_message = ''q'', req_system_prompt = Some ''sys'', req_max_iterations = 10\<rparr>])) \<noteq>
   length ([] :: turn list) +
     2 * length [\<lparr>req_message = ''q'', req_system_prompt = Some ''sys'', req_max_iterations = 10\<rparr>] \<and>
   fst (chat_calls (scripted_env [] (says ''hello'') []) 0 []
     [\<lparr>req_message = ''q'', req_system_prompt = Some ''sys'', req_max_iterations = 10\<rparr>]) =
   [system_turn ''sys'', user_turn ''q'', message_dict (says ''hello'')]"
  by (simp add: chat_def chat_loop.simps scripted_env_def says_def has_tool_calls_def
      append_prompts_def system_turn_def user_turn_def)

section \<open>Assistant turns and their tool calls\<close>

lemma history_ok_append:
  "history_ok (xs @ ys) = (history_ok xs \<and> history_ok ys)"
  by (simp add: history_ok_def)

lemma appends_ok_iff:
  "appends_ok hist hist' = (\<exists>new. hist' = hist @ new \<and> history_ok new)"
proof
  assume "appends_ok hist hist'"
  then have "hist' = hist @ drop (length hist) hist' \<and> history_ok (drop (length hist) hist')"
    unfolding appends_ok_def by (metis append_take_drop_id)
  then show "\<exists>new. hist' = hist @ new \<and> history_ok new" by blast
next
  assume "\<exists>new. hist' = hist @ new \<and> history_ok new"
  then show "appends_ok hist hist'" by (auto simp: appends_ok_def)
qed

lemma appends_ok_refl: "appends_ok hist hist"
  by (simp add: appends_ok_def history_ok_def)

lemma appends_ok_trans:
  "appends_ok a b \<Longrightarrow> appends_ok b c \<Longrightarrow> appends_ok a c"
  by (auto simp: appends_ok_iff history_ok_append)

lemma appends_ok_snoc:
  "assistant_turn_ok t \<Longrightarrow> appends_ok hist (hist @ [t])"
  by (simp add: appends_ok_def history_ok_def)

lemma appends_ok_keeps:
  "appends_ok hist hist' \<Longrightarrow> history_ok hist \<Longrightarrow> history_ok hist'"
  by (auto simp: appends_ok_iff history_ok_append)

lemma message_dict_ok: "assistant_turn_ok (message_dict m)"
  by (simp add: assistant_turn_ok_def message_dict_def has_tool_calls_def split: option.splits)

lemma tool_turn_ok: "assistant_turn_ok (tool_turn tc r)"
  by (simp add: assistant_turn_ok_def tool_turn_def)

lemma append_prompts_ok: "appends_ok hist (append_prompts hist um sp)"
  by (simp add: append_prompts_def appends_ok_def history_ok_def assistant_turn_ok_def
      split: option.splits)

lemma run_tool_calls_ok:
  "appends_ok hist (fst (snd (run_tool_calls e w hist tcs)))"
proof (induction tcs arbitrary: w hist)
  case Nil
  then show ?case by (simp add: appends_ok_refl)
next
  case (Cons tc tcs)
  show ?case
  proof (cases "json_loads e (fn_arguments tc)")
    case (Inl ex)
    then show ?thesis by (simp add: appends_ok_refl)
  next
    case (Inr a)
    obtain r w1 where r: "execute_tool_call e w (fn_name tc) a = (r, w1)"
      by (cases "execute_tool_call e w (fn_name tc) a")
    define res where
      "res = (case r of Inr s \<Rightarrow> s | Inl ex \<Rightarrow> ''Error executing tool: '' @ exc_str ex)"
    have "appends_ok hist (hist @ [tool_turn tc res])"
      by (simp add: appends_ok_snoc tool_turn_ok)
    from appends_ok_trans [OF this Cons.IH [of "hist @ [tool_turn tc res]" w1]] Inr r
    show ?thesis by (simp add: res_def)
  qed
qed

lemma chat_loop_ok:
  "nat (max_iterations - iteration) = n \<Longrightarrow>
   appends_ok hist (fst (snd (chat_loop e iteration max_iterations w hist)))"
proof (induction n arbitrary: iteration w hist)
  case 0
  then have "\<not> iteration < max_iterations" by simp
  then show ?case by (simp add: chat_loop_budget appends_ok_refl)
next
  case (Suc n)
  then have lt: "iteration < max_iterations" by simp
  obtain r w1 where r: "completions_create e w hist = (r, w1)"
    by (cases "completions_create e w hist")
  show ?case
  proof (cases r)
    case (Inl ex)
    with r lt show ?thesis by (simp add: chat_loop_provider_failure appends_ok_refl)
  next
    case (Inr m)
    have h1: "appends_ok hist (hist @ [message_dict m])"
      by (simp add: appends_ok_snoc message_dict_ok)
    show ?thesis
    proof (cases "has_tool_calls m")
      case False
      with r Inr lt h1 show ?thesis by (simp add: chat_loop_plain_answer)
    next
      case True
      then obtain tcs where tcs: "msg_tool_calls m = Some tcs" "tcs \<noteq> []"
        by (auto simp: has_tool_calls_def split: option.splits)
      obtain r2 hist2 w2 where
        run: "run_tool_calls e w1 (hist @ [message_dict m]) tcs = (r2, hist2, w2)"
        by (cases "run_tool_calls e w1 (hist @ [message_dict m]) tcs")
      from run_tool_calls_ok [of "hist @ [message_dict m]" e w1 tcs] run
      have "appends_ok (hist @ [message_dict m]) hist2" by simp
      from appends_ok_trans [OF h1 this] have h2: "appends_ok hist hist2" .
      from Suc.prems(1) have n: "nat (max_iterations - (iteration + 1)) = n" by simp
      from r Inr have c: "completions_create e w hist = (Inr m, w1)" by simp
      show ?thesis
      proof (cases r2)
        case (Inl ex)
        with chat_loop_act [OF lt c tcs] run h2 show ?thesis by simp
      next
        case (Inr u)
        with chat_loop_act [OF lt c tcs] run
          appends_ok_trans [OF h2 Suc.IH [OF n, of hist2 w2]]
        show ?thesis by simp
      qed
    qed
  qed
qed

lemma chat_ok:
  "appends_ok hist (fst (snd (chat e w hist um sp max_iterations)))"
  unfolding chat_def
  by (rule appends_ok_trans [OF append_prompts_ok chat_loop_ok]) simp

lemma resume_ok:
  "appends_ok hist (fst (snd (resume coll rest hist)))"
  by (induction coll rest hist rule: resume.induct)
    (simp_all add: appends_ok_refl appends_ok_snoc assistant_turn_ok_def)

lemma anext_ok:
  "appends_ok hist (fst (snd (anext e w hist g)))"
proof (cases g)
  case (Created um sp)
  have a: "appends_ok hist (append_prompts hist um sp)" by (rule append_prompts_ok)
  show ?thesis
  proof (cases "completions_create_stream e w (append_prompts hist um sp)")
    case (Pair r w1)
    show ?thesis
    proof (cases r)
      case (Inl ex)
      with Pair Created a show ?thesis by simp
    next
      case (Inr stream)
      with Pair Created
        appends_ok_trans [OF a resume_ok [of "append_prompts hist um sp" "[]" stream]]
      show ?thesis
        by (auto split: prod.splits)
    qed
  qed
next
  case (Suspended coll rest)
  from resume_ok [of hist coll rest] Suspended show ?thesis
    by (auto split: prod.splits)
next
  case Closed
  then show ?thesis by (simp add: appends_ok_refl)
qed

lemma consume_ok:
  "appends_ok hist (fst (snd (consume e k w hist g)))"
proof (induction k arbitrary: w hist g)
  case 0
  then show ?case by (simp add: appends_ok_refl)
next
  case (Suc k)
  obtain r hist1 g1 w1 where a: "anext e w hist g = (r, hist1, g1, w1)"
    by (cases "anext e w hist g") auto
  from anext_ok [of hist e w g] a have h1: "appends_ok hist hist1" by simp
  show ?case
  proof (cases r)
    case (Yield c)
    with a appends_ok_trans [OF h1 Suc.IH [of hist1 w1 g1]] show ?thesis
      by (auto split: prod.splits)
  next
    case StopAsyncIteration
    with a h1 show ?thesis by simp
  next
    case (Raise ex)
    with a h1 show ?thesis by simp
  qed
qed

text \<open>
  Claim C10. Whatever the model and the tools do, and whether the call returns or
  raises, \<^verbatim>\<open>chat\<close>, every step of \<^verbatim>\<open>chat_streaming\<close> and every
  consumption of its fragments only append turns to the history, and no assistant
  turn they append has an empty \<^verbatim>\<open>tool_calls\<close>: the key is absent or the list
  is not empty. So a history in which every assistant turn is so stays so.
\<close>

theorem assistant_turns_never_carry_empty_tool_calls:
  "appends_ok hist (fst (snd (chat e w hist user_message system_prompt max_iterations))) \<and>
   appends_ok hist (fst (snd (anext e w hist g))) \<and>
   appends_ok hist (fst (snd (consume e k w hist (chat_streaming user_message system_prompt)))) \<and>
   (history_ok hist \<longrightarrow>
      history_ok (fst (snd (chat e w hist user_message system_prompt max_iterations))) \<and>
      history_ok (fst (snd (anext e w hist g))) \<and>
      history_ok (fst (snd (consume e k w hist (chat_streaming user_message system_prompt)))))"
  using appends_ok_keeps [OF chat_ok, of hist e w user_message system_prompt max_iterations]
    appends_ok_keeps [OF anext_ok, of hist e w g]
    appends_ok_keeps [OF consume_ok, of hist e k w "chat_streaming user_message system_prompt"]
  by (simp add: chat_ok anext_ok consume_ok)

theorem assistant_turns_never_carry_empty_tool_calls_witness:
  "history_ok (fst (snd (chat (scripted_env [\<lparr>msg_content = Some ''hi'', msg_tool_calls = Some []\<rparr>] (says ''x'') [])
      0 [system_turn ''sys''] ''q'' None 10))) \<and>
   tool_calls (last (fst (snd (chat (scripted_env [\<lparr>msg_content = Some ''hi'', msg_tool_calls = Some []\<rparr>] (says ''x'') [])
      0 [system_turn ''sys''] ''q'' None 10)))) = None \<and>
   history_ok (fst (snd (consume (scripted_env [] (says ''x'') [Some ''a'', Some ''b''])
      3 0 [system_turn ''sys''] (chat_streaming ''q'' None))))"
proof -
  let ?e = "scripted_env [\<lparr>msg_content = Some ''hi'', msg_tool_calls = Some []\<rparr>] (says ''x'') []"
  let ?e2 = "scripted_env [] (says ''x'') [Some ''a'', Some ''b'']"
  have h: "history_ok [system_turn ''sys'']"
    by (simp add: history_ok_def assistant_turn_ok_def system_turn_def)
  from h assistant_turns_never_carry_empty_tool_calls [of "[system_turn ''sys'']" ?e 0 "''q''" None 10]
  have 1: "history_ok (fst (snd (chat ?e 0 [system_turn ''sys''] ''q'' None 10)))" by simp
  have 2: "tool_calls (last (fst (snd (chat ?e 0 [system_turn ''sys''] ''q'' None 10)))) = None"
    by (simp add: chat_def chat_loop.simps append_prompts_def scripted_env_def
        has_tool_calls_def message_dict_def)
  from h assistant_turns_never_carry_empty_tool_calls
    [of "[system_turn ''sys'']" ?e2 0 "''q''" None _ _ 3]
  have 3: "history_ok (fst (snd (consume ?e2 3 0 [system_turn ''sys''] (chat_streaming ''q'' None))))"
    by simp
  from 1 2 3 show ?thesis by simp
qed

section \<open>Streaming\<close>

lemma consume_skip_none:
  "consume e k w hist (Suspended coll (Inr None # rest)) = consume e k w hist (Suspended coll rest)"
  by (cases k) (simp_all add: aclose_def)

lemma consume_skip_empty:
  "consume e k w hist (Suspended coll (Inr (Some []) # rest)) = consume e k w hist (Suspended coll rest)"
  by (cases k) (simp_all add: aclose_def)

lemma consume_suspended:
  "consume e k w hist (Suspended coll stream) =
     (if k = 0 then ([], hist, Closed, w)
      else (take k (yielded stream),
            (if ends_normally stream \<and> length (yielded stream) < k
             then hist @ [\<lparr>role = Assistant, content = Some (concat (coll @ yielded stream)),
                            tool_calls = None, tool_call_id = None\<rparr>]
             else hist),
            Closed, w))"
proof (induction stream arbitrary: k coll)
  case Nil
  then show ?case by (cases k) (simp_all add: aclose_def)
next
  case (Cons x stream)
  show ?case
  proof (cases x)
    case (Inl ex)
    then show ?thesis by (cases k) (simp_all add: aclose_def)
  next
    case (Inr ch)
    show ?thesis
    proof (cases ch)
      case None
      with Inr Cons.IH [of k coll] show ?thesis by (simp add: consume_skip_none)
    next
      case (Some c)
      show ?thesis
      proof (cases "c = []")
        case True
        with Inr Some Cons.IH [of k coll] show ?thesis by (simp add: consume_skip_empty)
      next
        case False
        show ?thesis
        proof (cases k)
          case 0
          then show ?thesis by (simp add: aclose_def)
        next
          case (Suc k')
          with Inr Some False Cons.IH [of k' "coll @ [c]"] show ?thesis
            by (simp add: aclose_def)
        qed
      qed
    qed
  qed
qed

lemma consume_created:
  assumes "completions_create_stream e w (append_prompts hist um sp) = (Inr stream, w1)"
  shows "consume e (Suc k) w hist (Created um sp) =
         consume e (Suc k) w1 (append_prompts hist um sp) (Suspended [] stream)"
  using assms by (simp add: Let_def)

lemma consume_created_failure:
  assumes "completions_create_stream e w (append_prompts hist um sp) = (Inl ex, w1)"
  shows "consume e (Suc k) w hist (Created um sp) = ([], append_prompts hist um sp, Closed, w1)"
  using assms by (simp add: Let_def)

text \<open>
  Claim C7. For every call of \<^verbatim>\<open>chat_streaming\<close>, whatever the provider does,
  and every caller that takes at most \<open>k\<close> fragments. A caller that never starts
  the generator leaves the history as it was. When the stream cannot be opened the
  history gets the prompts of the call and nothing more. Otherwise the caller
  receives the first \<open>k\<close> of the fragments the stream yields before it ends or
  fails, and the history gets the prompts of the call, followed by one assistant
  turn, whose content is the concatenation of all the fragments yielded, exactly
  when the stream ends without failing and the caller went on past its last
  fragment; a caller that abandons the generator earlier, or a stream that fails,
  leaves no assistant turn.
\<close>

theorem streaming_commits_only_when_drained:
  "consume e k w hist (chat_streaming user_message system_prompt) =
     (if k = 0 then ([], hist, Closed, w)
      else
        (case completions_create_stream e w (append_prompts hist user_message system_prompt) of
           (Inl ex, w1) \<Rightarrow> ([], append_prompts hist user_message system_prompt, Closed, w1)
         | (Inr stream, w1) \<Rightarrow>
             (take k (yielded stream),
              (if ends_normally stream \<and> length (yielded stream) < k
               then append_prompts hist user_message system_prompt @
                      [\<lparr>role = Assistant, content = Some (concat (yielded stream)),
                        tool_calls = None, tool_call_id = None\<rparr>]
               else append_prompts hist user_message system_prompt),
              Closed, w1)))"
proof (cases k)
  case 0
  then show ?thesis by (simp add: aclose_def)
next
  case (Suc k')
  obtain r w1 where
    c: "completions_create_stream e w (append_prompts hist user_message system_prompt) = (r, w1)"
    by (cases "completions_create_stream e w (append_prompts hist user_message system_prompt)")
  show ?thesis
  proof (cases r)
    case (Inl ex)
    with c Suc consume_created_failure [of e w hist user_message system_prompt ex w1 k']
    show ?thesis by (simp add: chat_streaming_def)
  next
    case (Inr stream)
    with c Suc consume_created [of e w hist user_message system_prompt stream w1 k']
    show ?thesis by (simp add: chat_streaming_def consume_suspended)
  qed
qed

theorem streaming_commits_only_when_drained_witness:
  "consume (scripted_env [] (says ''x'')
       [Some ''a'', None, Some ''b'', Some [], Some ''c'', Some ''d'', Some ''e''])
     1 0 [system_turn ''sys''] (chat_streaming ''q'' None) =
     ([''a''], [system_turn ''sys'', user_turn ''q''], Closed, 1) \<and>
   consume (scripted_env [] (says ''x'')
       [Some ''a'', None, Some ''b'', Some [], Some ''c'', Some ''d'', Some ''e''])
     5 0 [system_turn ''sys''] (chat_streaming ''q'' None) =
     ([''a'', ''b'', ''c'', ''d'', ''e''], [system_turn ''sys'', user_turn ''q''], Closed, 1) \<and>
   consume (scripted_env [] (says ''x'')
       [Some ''a'', None, Some ''b'', Some [], Some ''c'', Some ''d'', Some ''e''])
     6 0 [system_turn ''sys''] (chat_streaming ''q'' None) =
     ([''a'', ''b'', ''c'', ''d'', ''e''],
      [system_turn ''sys'', user_turn ''q'',
       \<lparr>role = Assistant, content = Some ''abcde'', tool_calls = None, tool_call_id = None\<rparr>],
      Closed, 1) \<and>
   consume broken_stream_env 1 0 [system_turn ''sys''] (chat_streaming ''q'' None) =
     ([''a''], [system_turn ''sys'', user_turn ''q''], Closed, 1) \<and>
   consume broken_stream_env 6 0 [system_turn ''sys''] (chat_streaming ''q'' None) =
     ([''a''], [system_turn ''sys'', user_turn ''q''], Closed, 1)"
proof -
  let ?chunks = "[Some ''a'', None, Some ''b'', Some [], Some ''c'', Some ''d'', Some ''e'']"
  let ?e = "scripted_env [] (says ''x'') ?chunks"
  have h: "completions_create_stream ?e 0 (append_prompts [system_turn ''sys''] ''q'' None) =
      (Inr (map Inr ?chunks), 1)"
    by (simp add: scripted_env_def)
  have b: "completions_create_stream broken_stream_env 0
        (append_prompts [system_turn ''sys''] ''q'' None) =
      (Inr [Inr (Some ''a''), Inl (OtherException ''Connection lost''), Inr (Some ''b'')], 1)"
    by (simp add: broken_stream_env_def scripted_env_def)
  have p: "append_prompts [system_turn ''sys''] ''q'' None = [system_turn ''sys'', user_turn ''q'']"
    by (simp add: append_prompts_def user_turn_def)
  from streaming_commits_only_when_drained [of ?e 1 0 "[system_turn ''sys'']" "''q''" None] h p
  have 1: "consume ?e 1 0 [system_turn ''sys''] (chat_streaming ''q'' None) =
     ([''a''], [system_turn ''sys'', user_turn ''q''], Closed, 1)"
    by simp
  from streaming_commits_only_when_drained [of ?e 5 0 "[system_turn ''sys'']" "''q''" None] h p
  have 2: "consume ?e 5 0 [system_turn ''sys''] (chat_streaming ''q'' None) =
     ([''a'', ''b'', ''c'', ''d'', ''e''], [system_turn ''sys'', user_turn ''q''], Closed, 1)"
    by simp
  from streaming_commits_only_when_drained [of ?e 6 0 "[system_turn ''sys'']" "''q''" None] h p
  have 3: "consume ?e 6 0 [system_turn ''sys''] (chat_streaming ''q'' None) =
     ([''a'', ''b'', ''c'', ''d'', ''e''],
      [system_turn ''sys'', user_turn ''q'',
       \<lparr>role = Assistant, content = Some ''abcde'', tool_calls = None, tool_call_id = None\<rparr>],
      Closed, 1)"
    by simp
  from streaming_commits_only_when_drained
    [of broken_stream_env 1 0 "[system_turn ''sys'']" "''q''" None] b p
  have 4: "consume broken_stream_env 1 0 [system_turn ''sys''] (chat_streaming ''q'' None) =
     ([''a''], [system_turn ''sys'', user_turn ''q''], Closed, 1)"
    by simp
  from streaming_commits_only_when_drained
    [of broken_stream_env 6 0 "[system_turn ''sys'']" "''q''" None] b p
  have 5: "consume broken_stream_env 6 0 [system_turn ''sys''] (chat_streaming ''q'' None) =
     ([''a''], [system_turn ''sys'', user_turn ''q''], Closed, 1)"
    by simp
  from 1 2 3 4 5 show ?thesis by (intro conjI)
qed

section \<open>Reset and copy of the history\<close>

text \<open>
  Claim C8. In every state, \<^verbatim>\<open>reset_conversation\<close> followed by
  \<^verbatim>\<open>get_conversation_history\<close> returns a list with no turn; when a system turn
  is appended to the history after the reset, as \<^verbatim>\<open>reset_session\<close> does, the
  list returned holds exactly that turn.
\<close>

theorem reset_then_get_history:
  "(case reset_conversation st s of
      (st1, s1) \<Rightarrow>
        (case get_conversation_history st1 s1 of (h, st2) \<Rightarrow> read_list st2 h = [])) \<and>
   (case reset_conversation st s of
      (st1, s1) \<Rightarrow>
        (case get_conversation_history
                (list_append st1 (conversation_history s1) (system_turn p)) s1 of
           (h, st2) \<Rightarrow> read_list st2 h = [system_turn p]))"
  by (simp add: reset_conversation_def get_conversation_history_def new_list_def
      list_append_def new_dict_def read_list_def)

lemma mutate_next_ref: "next_ref st \<le> next_ref (mutate h st m)"
  by (cases m) (simp_all add: list_append_def new_dict_def)

lemma mutate_other_list:
  "changes_list_only m \<Longrightarrow> l \<noteq> h \<Longrightarrow> list_obj (mutate h st m) l = list_obj st l"
  by (cases m) (simp_all add: list_append_def new_dict_def)

lemma mutate_old_dict:
  "changes_list_only m \<Longrightarrow> d < next_ref st \<Longrightarrow> dict_obj (mutate h st m) d = dict_obj st d"
  by (cases m) (simp_all add: list_append_def new_dict_def)

lemma mutations_keep_other_list:
  "list_all changes_list_only ms \<Longrightarrow> l \<noteq> h \<Longrightarrow>
   list_all (\<lambda>d. d < next_ref st) (list_obj st l) \<Longrightarrow>
   read_list (foldl (mutate h) st ms) l = read_list st l"
proof (induction ms arbitrary: st)
  case Nil
  then show ?case by simp
next
  case (Cons m ms)
  from Cons.prems have m: "changes_list_only m" and ms: "list_all changes_list_only ms"
    by simp_all
  have l: "list_obj (mutate h st m) l = list_obj st l"
    using m Cons.prems(2) by (rule mutate_other_list)
  have below: "list_all (\<lambda>d. d < next_ref (mutate h st m)) (list_obj (mutate h st m) l)"
    using Cons.prems(3) mutate_next_ref [of st h m] l
    by (auto simp: list_all_iff)
  have same: "read_list (mutate h st m) l = read_list st l"
    using Cons.prems(3) m l by (auto simp: read_list_def list_all_iff mutate_old_dict)
  from Cons.IH [OF ms Cons.prems(2) below] same show ?case by simp
qed

text \<open>
  Claim C9, as amended. \<^verbatim>\<open>get_conversation_history\<close> returns a shallow copy:
  a new list, not the session's, that holds the references of the session's list,
  so its turns are the session's own turn objects, none copied. Whatever the holder
  does to the returned list itself (appending, replacing or deleting elements,
  clearing it) leaves the conversation history of the session as it was. Setting
  the content of a turn reached through the returned list sets the content of that
  turn of the session's history.
\<close>

theorem history_copy_protects_the_list:
  assumes "allocated st s"
    and "list_all changes_list_only ms"
    and "get_conversation_history st s = (h, st1)"
  shows "h \<noteq> conversation_history s \<and>
         list_obj st1 h = list_obj st (conversation_history s) \<and>
         list_obj st1 (conversation_history s) = list_obj st (conversation_history s) \<and>
         dict_obj st1 = dict_obj st \<and>
         read_list st1 h = read_list st (conversation_history s) \<and>
         read_list (foldl (mutate h) st1 ms) (conversation_history s) =
           read_list st (conversation_history s) \<and>
         (\<forall>i c. i < length (list_obj st (conversation_history s)) \<longrightarrow>
            read_list (mutate h st1 (TurnSetContent i c)) (conversation_history s) ! i =
              (read_list st (conversation_history s) ! i)\<lparr>content := c\<rparr>)"
proof -
  from assms(3) have h: "h = next_ref st" and
    st1: "st1 = st\<lparr>list_obj := (list_obj st)(next_ref st := list_obj st (conversation_history s)),
                    next_ref := Suc (next_ref st)\<rparr>"
    by (auto simp: get_conversation_history_def new_list_def)
  from assms(1) have ne: "conversation_history s \<noteq> h"
    and below: "list_all (\<lambda>d. d < next_ref st) (list_obj st (conversation_history s))"
    by (auto simp: allocated_def h)
  have refs: "list_obj st1 h = list_obj st (conversation_history s)"
    by (simp add: st1 h)
  have own_refs: "list_obj st1 (conversation_history s) = list_obj st (conversation_history s)"
    using ne by (simp add: st1 h)
  have dicts: "dict_obj st1 = dict_obj st"
    by (simp add: st1)
  have copy: "read_list st1 h = read_list st (conversation_history s)"
    by (simp add: refs dicts read_list_def)
  have own: "read_list st1 (conversation_history s) = read_list st (conversation_history s)"
    by (simp add: own_refs dicts read_list_def)
  have below1: "list_all (\<lambda>d. d < next_ref st1) (list_obj st1 (conversation_history s))"
    using below ne by (auto simp: st1 h list_all_iff)
  have kept: "read_list (foldl (mutate h) st1 ms) (conversation_history s) =
           read_list st (conversation_history s)"
    using mutations_keep_other_list [OF assms(2) ne below1] own by simp
  have shared: "\<forall>i c. i < length (list_obj st (conversation_history s)) \<longrightarrow>
            read_list (mutate h st1 (TurnSetContent i c)) (conversation_history s) ! i =
              (read_list st (conversation_history s) ! i)\<lparr>content := c\<rparr>"
    by (simp add: refs own_refs dicts read_list_def)
  from ne refs own_refs dicts copy kept shared show ?thesis by blast
qed

lemma one_turn_session_eq:
  "one_turn_session =
     (\<lparr>list_obj = (\<lambda>l. [])(0 := [1]), dict_obj = (\<lambda>d. user_turn [])(1 := user_turn ''hi''),
       next_ref = 2\<rparr>,
      \<lparr>conversation_history = 0\<rparr>)"
  by (simp add: one_turn_session_def reset_conversation_def new_list_def empty_store_def
      list_append_def new_dict_def fun_eq_iff)

theorem history_copy_protects_the_list_witness:
  "read_list
     (foldl (mutate (fst (get_conversation_history (fst one_turn_session) (snd one_turn_session))))
        (snd (get_conversation_history (fst one_turn_session) (snd one_turn_session)))
        [ListAppend (user_turn ''x''), ListSetItem 0 (user_turn ''y''), ListDelItem 1, ListClear])
     (conversation_history (snd one_turn_session)) = [user_turn ''hi''] \<and>
   read_list (snd (get_conversation_history (fst one_turn_session) (snd one_turn_session)))
     (fst (get_conversation_history (fst one_turn_session) (snd one_turn_session))) =
     [user_turn ''hi''] \<and>
   list_obj (snd (get_conversation_history (fst one_turn_session) (snd one_turn_session)))
     (fst (get_conversation_history (fst one_turn_session) (snd one_turn_session))) = [1] \<and>
   list_obj (fst one_turn_session) (conversation_history (snd one_turn_session)) = [1] \<and>
   read_list
     (mutate (fst (get_conversation_history (fst one_turn_session) (snd one_turn_session)))
        (snd (get_conversation_history (fst one_turn_session) (snd one_turn_session)))
        (TurnSetContent 0 (Some ''changed'')))
     (conversation_history (snd one_turn_session)) ! 0 = user_turn ''changed''"
proof -
  let ?st = "fst one_turn_session"
  let ?s = "snd one_turn_session"
  let ?h = "fst (get_conversation_history ?st ?s)"
  let ?st1 = "snd (get_conversation_history ?st ?s)"
  let ?ms = "[ListAppend (user_turn ''x''), ListSetItem 0 (user_turn ''y''), ListDelItem 1, ListClear]"
  have a: "allocated ?st ?s"
    by (simp add: one_turn_session_eq allocated_def)
  have b: "list_all changes_list_only ?ms" by simp
  have c: "get_conversation_history ?st ?s = (?h, ?st1)"
    by simp
  have d: "read_list ?st (conversation_history ?s) = [user_turn ''hi'']"
    by (simp add: one_turn_session_eq read_list_def)
  have l: "list_obj ?st (conversation_history ?s) = [1]"
    by (simp add: one_turn_session_eq)
  have u: "(user_turn ''hi'')\<lparr>content := Some ''changed''\<rparr> = user_turn ''changed''"
    by (simp add: user_turn_def)
  note t = history_copy_protects_the_list [OF a b c]
  from t have refs: "list_obj ?st1 ?h = list_obj ?st (conversation_history ?s)"
    by (elim conjE)
  from t have copy: "read_list ?st1 ?h = read_list ?st (conversation_history ?s)"
    by (elim conjE)
  from t have kept: "read_list (foldl (mutate ?h) ?st1 ?ms) (conversation_history ?s) =
      read_list ?st (conversation_history ?s)"
    by (elim conjE)
  from t have shared: "\<forall>i c. i < length (list_obj ?st (conversation_history ?s)) \<longrightarrow>
      read_list (mutate ?h ?st1 (TurnSetContent i c)) (conversation_history ?s) ! i =
        (read_list ?st (conversation_history ?s) ! i)\<lparr>content := c\<rparr>"
    by (elim conjE)
  have "0 < length (list_obj ?st (conversation_history ?s))"
    by (simp only: l) simp
  with shared have "read_list (mutate ?h ?st1 (TurnSetContent 0 (Some ''changed'')))
        (conversation_history ?s) ! 0 =
      (read_list ?st (conversation_history ?s) ! 0)\<lparr>content := Some ''changed''\<rparr>"
    by blast
  also have "\<dots> = user_turn ''changed''"
    by (simp only: d nth_Cons_0 u)
  finally have 5: "read_list (mutate ?h ?st1 (TurnSetContent 0 (Some ''changed'')))
        (conversation_history ?s) ! 0 = user_turn ''changed''" .
  from kept d have 1: "read_list (foldl (mutate ?h) ?st1 ?ms) (conversation_history ?s) =
      [user_turn ''hi'']"
    by (simp only:)
  from copy d have 2: "read_list ?st1 ?h = [user_turn ''hi'']"
    by (simp only:)
  from refs l have 3: "list_obj ?st1 ?h = [1]"
    by (simp only:)
  from 1 2 3 l 5 show ?thesis by (intro conjI)
qed

text \<open>
  Claim C9 as stated fails: the copy is shallow. The new list refers to the same
  dictionaries, so setting the content of its first turn changes the first turn of
  the session's history.
\<close>

theorem history_copy_shares_the_turns_counterexample:
  "read_list
     (mutate (fst (get_conversation_history (fst one_turn_session) (snd one_turn_session)))
        (snd (get_conversation_history (fst one_turn_session) (snd one_turn_session)))
        (TurnSetContent 0 (Some ''changed'')))
     (conversation_history (snd one_turn_session)) \<noteq>
   read_list (fst one_turn_session) (conversation_history (snd one_turn_session)) \<and>
   read_list (fst one_turn_session) (conversation_history (snd one_turn_session)) =
     [user_turn ''hi''] \<and>
   read_list
     (mutate (fst (get_conversation_history (fst one_turn_session) (snd one_turn_session)))
        (snd (get_conversation_history (fst one_turn_session) (snd one_turn_session)))
        (TurnSetContent 0 (Some ''changed'')))
     (conversation_history (snd one_turn_session)) = [user_turn ''changed'']"
  by (simp add: one_turn_session_eq get_conversation_history_def new_list_def read_list_def
      user_turn_def)

end
